theory Spec2Isabelle
  imports Main "HOL-Library.Word" "HOL-Library.Signed_Division"
begin

unbundle bit_operations_syntax

section \<open>Model of the simulated file system\<close>

subsection \<open>Constants and on-disk structures (\<^verbatim>\<open>src/utils/common.h\<close>)\<close>

text \<open>
  A C \<^verbatim>\<open>int\<close> held in memory is an \<^typ>\<open>int\<close>; the \<^verbatim>\<open>int\<close> and \<^verbatim>\<open>time_t\<close> fields of
  the structures that are copied to and from disk blocks are 32-bit and 64-bit words
  (little-endian, LP64 layout), read as signed values with \<^const>\<open>sint\<close>.
\<close>

type_synonym byte = "8 word"

abbreviation (input) BLOCK_SIZE :: nat where "BLOCK_SIZE \<equiv> 4096"
abbreviation (input) BITS_PER_BLOCK :: int where "BITS_PER_BLOCK \<equiv> 32768"
abbreviation (input) MAX_FILENAME_LENGTH :: nat where "MAX_FILENAME_LENGTH \<equiv> 256"
abbreviation (input) MAX_PATH_LENGTH :: nat where "MAX_PATH_LENGTH \<equiv> 1024"
abbreviation (input) DIRECT_BLOCKS_COUNT :: nat where "DIRECT_BLOCKS_COUNT \<equiv> 10"
abbreviation (input) MAGIC_NUMBER :: "32 word" where "MAGIC_NUMBER \<equiv> 0x4D494E44"

abbreviation (input) FILE_TYPE_REGULAR :: int where "FILE_TYPE_REGULAR \<equiv> 0x8000"
abbreviation (input) FILE_TYPE_DIRECTORY :: int where "FILE_TYPE_DIRECTORY \<equiv> 0x4000"
abbreviation (input) FILE_PERMISSION_READ :: int where "FILE_PERMISSION_READ \<equiv> 0x400"
abbreviation (input) FILE_PERMISSION_WRITE :: int where "FILE_PERMISSION_WRITE \<equiv> 0x200"
abbreviation (input) FILE_PERMISSION_EXECUTE :: int where "FILE_PERMISSION_EXECUTE \<equiv> 0x100"

abbreviation (input) OPEN_MODE_READ :: int where "OPEN_MODE_READ \<equiv> 0x01"
abbreviation (input) OPEN_MODE_WRITE :: int where "OPEN_MODE_WRITE \<equiv> 0x02"
abbreviation (input) OPEN_MODE_CREATE :: int where "OPEN_MODE_CREATE \<equiv> 0x04"
abbreviation (input) OPEN_MODE_APPEND :: int where "OPEN_MODE_APPEND \<equiv> 0x08"

text \<open>\<^verbatim>\<open>sizeof(Inode)\<close>, \<^verbatim>\<open>BLOCK_SIZE / sizeof(Inode)\<close>, \<^verbatim>\<open>sizeof(DirectoryEntry)\<close>,
  \<^verbatim>\<open>BLOCK_SIZE / sizeof(DirectoryEntry)\<close> and \<^verbatim>\<open>BLOCK_SIZE / sizeof(int)\<close>.\<close>

abbreviation (input) INODE_SIZE :: nat where "INODE_SIZE \<equiv> 96"
abbreviation (input) INODES_PER_BLOCK :: int where "INODES_PER_BLOCK \<equiv> 42"
abbreviation (input) DIRENT_SIZE :: nat where "DIRENT_SIZE \<equiv> 264"
abbreviation (input) DIRENTS_PER_BLOCK :: nat where "DIRENTS_PER_BLOCK \<equiv> 15"
abbreviation (input) PTRS_PER_BLOCK :: nat where "PTRS_PER_BLOCK \<equiv> 1024"

datatype ErrorCode =
    ERROR_DISK_NOT_FOUND | ERROR_DISK_ALREADY_EXISTS | ERROR_INVALID_BLOCK
  | ERROR_NO_FREE_BLOCKS | ERROR_NO_FREE_INODES | ERROR_FILE_NOT_FOUND
  | ERROR_FILE_ALREADY_EXISTS | ERROR_INVALID_PATH | ERROR_PERMISSION_DENIED
  | ERROR_DISK_FULL | ERROR_IO_ERROR | ERROR_INVALID_INODE
  | ERROR_DIRECTORY_NOT_EMPTY | ERROR_NOT_A_DIRECTORY | ERROR_IS_A_DIRECTORY
  | ERROR_INVALID_FILE_DESCRIPTOR | ERROR_FILE_ALREADY_OPEN | ERROR_FILE_NOT_OPEN
  | ERROR_INVALID_ARGUMENT | ERROR_OUT_OF_MEMORY | ERROR_BUFFER_OVERFLOW
  | ERROR_UNKNOWN_COMMAND | ERROR_INVALID_SYNTAX | ERROR_MOUNT_FAILED
  | ERROR_UNMOUNT_FAILED | ERROR_FORMAT_FAILED | ERROR_ALREADY_MOUNTED
  | ERROR_NOT_MOUNTED

record DiskLayout =
  superblock_start :: int
  superblock_blocks :: int
  inode_bitmap_start :: int
  inode_bitmap_blocks :: int
  data_bitmap_start :: int
  data_bitmap_blocks :: int
  inode_table_start :: int
  inode_table_blocks :: int
  data_blocks_start :: int
  data_blocks_count :: int

record Superblock =
  magic_number :: "32 word"
  sb_total_blocks :: "32 word"
  sb_free_blocks :: "32 word"
  sb_total_inodes :: "32 word"
  sb_free_inodes :: "32 word"
  sb_block_size :: "32 word"
  sb_inode_table_start :: "32 word"
  sb_data_blocks_start :: "32 word"
  sb_inode_bitmap_start :: "32 word"
  sb_data_bitmap_start :: "32 word"
  mount_time :: "64 word"
  write_time :: "64 word"

text \<open>The field \<^verbatim>\<open>size\<close> is named \<open>size_i\<close>; \<open>direct_blocks\<close> is the array of ten pointers.\<close>

record Inode =
  mode :: "32 word"
  owner_id :: "32 word"
  group_id :: "32 word"
  size_i :: "32 word"
  access_time :: "64 word"
  modification_time :: "64 word"
  creation_time :: "64 word"
  link_count :: "32 word"
  direct_blocks :: "32 word list"
  indirect_block :: "32 word"
  double_indirect_block :: "32 word"

record DirectoryEntry =
  inode_number :: "32 word"
  name :: "byte list"
  name_length :: "32 word"

text \<open>\<^verbatim>\<open>struct FileDescriptor\<close>, held in memory only.\<close>

record FileDescriptor =
  inode_num :: int
  fd_mode :: int
  position :: int
  fd_open :: bool

subsection \<open>Bytes of a structure\<close>

definition le32 :: "32 word \<Rightarrow> byte list" where
  "le32 w = [ucast w, ucast (drop_bit 8 w), ucast (drop_bit 16 w), ucast (drop_bit 24 w)]"

definition rd32 :: "byte list \<Rightarrow> nat \<Rightarrow> 32 word" where
  "rd32 bs off = ucast (bs ! off) OR push_bit 8 (ucast (bs ! (off + 1)))
       OR push_bit 16 (ucast (bs ! (off + 2))) OR push_bit 24 (ucast (bs ! (off + 3)))"

definition le64 :: "64 word \<Rightarrow> byte list" where
  "le64 w = [ucast w, ucast (drop_bit 8 w), ucast (drop_bit 16 w), ucast (drop_bit 24 w),
             ucast (drop_bit 32 w), ucast (drop_bit 40 w), ucast (drop_bit 48 w),
             ucast (drop_bit 56 w)]"

definition rd64 :: "byte list \<Rightarrow> nat \<Rightarrow> 64 word" where
  "rd64 bs off = ucast (bs ! off) OR push_bit 8 (ucast (bs ! (off + 1)))
       OR push_bit 16 (ucast (bs ! (off + 2))) OR push_bit 24 (ucast (bs ! (off + 3)))
       OR push_bit 32 (ucast (bs ! (off + 4))) OR push_bit 40 (ucast (bs ! (off + 5)))
       OR push_bit 48 (ucast (bs ! (off + 6))) OR push_bit 56 (ucast (bs ! (off + 7)))"

text \<open>\<^verbatim>\<open>memcpy(dest + off, src, n)\<close> on a buffer that holds at least \<open>off + n\<close> bytes.\<close>

definition memcpy :: "byte list \<Rightarrow> nat \<Rightarrow> byte list \<Rightarrow> nat \<Rightarrow> byte list" where
  "memcpy dest off src n = take off dest @ take n src @ drop (off + n) dest"

text \<open>
  The image of an \<^verbatim>\<open>Inode\<close> in memory: \<open>mode\<close> at 0, \<open>owner_id\<close> at 4, \<open>group_id\<close> at 8,
  \<open>size\<close> at 12, the three times at 16, 24 and 32, \<open>link_count\<close> at 40, the direct pointers
  at 44, \<open>indirect_block\<close> at 84, \<open>double_indirect_block\<close> at 88 and four bytes of padding,
  which the model writes as zeros.
\<close>

definition encode_inode :: "Inode \<Rightarrow> byte list" where
  "encode_inode I =
     le32 (mode I) @ le32 (owner_id I) @ le32 (group_id I) @ le32 (size_i I) @
     le64 (access_time I) @ le64 (modification_time I) @ le64 (creation_time I) @
     le32 (link_count I) @ concat (map le32 (take DIRECT_BLOCKS_COUNT (direct_blocks I @ replicate DIRECT_BLOCKS_COUNT 0))) @
     le32 (indirect_block I) @ le32 (double_indirect_block I) @ replicate 4 0"

definition decode_inode :: "byte list \<Rightarrow> Inode" where
  "decode_inode bs =
     \<lparr>mode = rd32 bs 0, owner_id = rd32 bs 4, group_id = rd32 bs 8, size_i = rd32 bs 12,
      access_time = rd64 bs 16, modification_time = rd64 bs 24, creation_time = rd64 bs 32,
      link_count = rd32 bs 40,
      direct_blocks = map (\<lambda>i. rd32 bs (44 + 4 * i)) [0..<DIRECT_BLOCKS_COUNT],
      indirect_block = rd32 bs 84, double_indirect_block = rd32 bs 88\<rparr>"

text \<open>The magic number is the first field of the \<^verbatim>\<open>Superblock\<close> (56 bytes).\<close>

definition decode_superblock :: "byte list \<Rightarrow> Superblock" where
  "decode_superblock bs =
     \<lparr>magic_number = rd32 bs 0, sb_total_blocks = rd32 bs 4, sb_free_blocks = rd32 bs 8,
      sb_total_inodes = rd32 bs 12, sb_free_inodes = rd32 bs 16, sb_block_size = rd32 bs 20,
      sb_inode_table_start = rd32 bs 24, sb_data_blocks_start = rd32 bs 28,
      sb_inode_bitmap_start = rd32 bs 32, sb_data_bitmap_start = rd32 bs 36,
      mount_time = rd64 bs 40, write_time = rd64 bs 48\<rparr>"

text \<open>A \<^verbatim>\<open>DirectoryEntry\<close>: \<open>inode_number\<close> at 0, \<open>name[256]\<close> at 4, \<open>name_length\<close> at 260.\<close>

definition encode_dirent :: "DirectoryEntry \<Rightarrow> byte list" where
  "encode_dirent e =
     le32 (inode_number e) @
     take MAX_FILENAME_LENGTH (name e @ replicate MAX_FILENAME_LENGTH 0) @
     le32 (name_length e)"

definition decode_dirent :: "byte list \<Rightarrow> DirectoryEntry" where
  "decode_dirent bs =
     \<lparr>inode_number = rd32 bs 0, name = take MAX_FILENAME_LENGTH (drop 4 bs),
      name_length = rd32 bs 260\<rparr>"

subsection \<open>The block device (\<^verbatim>\<open>src/core/disk_simulator.cpp\<close>)\<close>

text \<open>
  The image is a host file: \<open>disk_bytes\<close> gives the byte at every offset. A block is read
  and written whole at offset \<open>block_num * BLOCK_SIZE\<close>. Host errors of \<^verbatim>\<open>fseek\<close>,
  \<^verbatim>\<open>fread\<close> and \<^verbatim>\<open>fwrite\<close> are not modelled: block I/O fails exactly when the device is
  closed or the block number is out of range.
\<close>

record DiskSimulator =
  disk_open :: bool
  lock_acquired :: bool
  disk_size :: int
  total_blocks :: int
  disk_bytes :: "nat \<Rightarrow> byte"

record HostFile =
  file_size :: int
  file_bytes :: "nat \<Rightarrow> byte"

definition new_DiskSimulator :: DiskSimulator where
  "new_DiskSimulator =
     \<lparr>disk_open = False, lock_acquired = False, disk_size = 0, total_blocks = 0,
      disk_bytes = (\<lambda>_. 0)\<rparr>"

text \<open>
  The value an arithmetic result has once it is held in a C \<^verbatim>\<open>int\<close>: reduced to the 32-bit
  two's-complement range, which is what the conversion from \<^verbatim>\<open>long\<close> and the compiled
  overflow both do. The division of C truncates (\<open>sdiv\<close>).
\<close>

definition int32 :: "int \<Rightarrow> int" where
  "int32 x = sint (word_of_int x :: 32 word)"

text \<open>\<open>file\<close> is what \<^verbatim>\<open>fopen(path, "rb+")\<close> yields; \<^verbatim>\<open>flock\<close> is taken to succeed.
  \<open>disk_size\<close> is a \<^verbatim>\<open>long\<close>, \<open>total_blocks\<close> an \<^verbatim>\<open>int\<close>.\<close>

definition open_disk :: "DiskSimulator \<Rightarrow> HostFile option \<Rightarrow> bool \<times> DiskSimulator" where
  "open_disk d file =
     (if disk_open d then (False, d)
      else case file of
        None \<Rightarrow> (False, d)
      | Some f \<Rightarrow>
          (True, d\<lparr>lock_acquired := True, disk_size := file_size f,
                    total_blocks := int32 (file_size f sdiv int BLOCK_SIZE),
                    disk_bytes := file_bytes f, disk_open := True\<rparr>))"

definition close_disk :: "DiskSimulator \<Rightarrow> DiskSimulator" where
  "close_disk d =
     (if disk_open d then d\<lparr>lock_acquired := False, disk_open := False\<rparr>
      else d\<lparr>disk_open := False\<rparr>)"

definition is_ready_for_io :: "DiskSimulator \<Rightarrow> int \<Rightarrow> bool" where
  "is_ready_for_io d block_num =
     (if \<not> disk_open d then False
      else if block_num < 0 \<or> block_num \<ge> total_blocks d then False
      else True)"

definition read_block :: "DiskSimulator \<Rightarrow> int \<Rightarrow> byte list option" where
  "read_block d block_num =
     (if \<not> is_ready_for_io d block_num then None
      else Some (map (\<lambda>i. disk_bytes d (nat block_num * BLOCK_SIZE + i)) [0..<BLOCK_SIZE]))"

definition write_block :: "DiskSimulator \<Rightarrow> int \<Rightarrow> byte list \<Rightarrow> DiskSimulator option" where
  "write_block d block_num buffer =
     (if \<not> is_ready_for_io d block_num then None
      else Some (d\<lparr>disk_bytes :=
                    (\<lambda>a. if a div BLOCK_SIZE = nat block_num then buffer ! (a mod BLOCK_SIZE)
                         else disk_bytes d a)\<rparr>))"

definition calculate_layout :: "DiskSimulator \<Rightarrow> DiskLayout" where
  "calculate_layout d =
     (let inode_count0 =
            int32 (int32 (int32 (total_blocks d sdiv 10 + INODES_PER_BLOCK) - 1)
                     sdiv INODES_PER_BLOCK * INODES_PER_BLOCK);
          inode_count =
            (if inode_count0 = 0 \<and> total_blocks d > 10 then INODES_PER_BLOCK else inode_count0);
          it_blocks = inode_count sdiv INODES_PER_BLOCK;
          it_start = int32 (0 + 1);
          ib_blocks = int32 (int32 (inode_count + BITS_PER_BLOCK) - 1) sdiv BITS_PER_BLOCK;
          ib_start = int32 (it_start + it_blocks);
          db_blocks = int32 (int32 (total_blocks d + BITS_PER_BLOCK) - 1) sdiv BITS_PER_BLOCK;
          db_start = int32 (ib_start + ib_blocks);
          d_start = int32 (db_start + db_blocks)
      in \<lparr>superblock_start = 0, superblock_blocks = 1,
          inode_bitmap_start = ib_start, inode_bitmap_blocks = ib_blocks,
          data_bitmap_start = db_start, data_bitmap_blocks = db_blocks,
          inode_table_start = it_start, inode_table_blocks = it_blocks,
          data_blocks_start = d_start,
          data_blocks_count =
            (if total_blocks d > d_start then int32 (total_blocks d - d_start) else 0)\<rparr>)"

text \<open>\<^verbatim>\<open>BlockUtils::create_block_buffer\<close>: a zeroed block.\<close>

definition create_block_buffer :: "byte list" where
  "create_block_buffer = replicate BLOCK_SIZE 0"

subsection \<open>The bitmap (\<^verbatim>\<open>src/core/bitmap_manager.cpp\<close>)\<close>

text \<open>
  \<open>bitmap_data\<close> is the byte array; the null pointer of a bitmap built with a size that
  is not positive is the empty array with \<open>bitmap_size = 0\<close>. Failure of \<^verbatim>\<open>new\<close> is not
  modelled.
\<close>

record BitmapManager =
  bitmap_data :: "byte list"
  bitmap_size :: int
  total_bits :: int
  free_bits_count :: int
  start_block :: int
  block_count :: int

definition new_BitmapManager :: "int \<Rightarrow> BitmapManager" where
  "new_BitmapManager sz =
     (if sz > 0
      then \<lparr>bitmap_data = replicate (nat ((sz + 7) div 8)) 0, bitmap_size = (sz + 7) div 8,
            total_bits = sz, free_bits_count = sz, start_block = 0, block_count = 0\<rparr>
      else \<lparr>bitmap_data = [], bitmap_size = 0,
            total_bits = sz, free_bits_count = sz, start_block = 0, block_count = 0\<rparr>)"

definition bitmap_check_initialized :: "BitmapManager \<Rightarrow> bool" where
  "bitmap_check_initialized b = (bitmap_size b > 0)"

definition is_valid_bit :: "BitmapManager \<Rightarrow> int \<Rightarrow> bool" where
  "is_valid_bit b bit_num = (bit_num \<ge> 0 \<and> bit_num < total_bits b)"

text \<open>\<^verbatim>\<open>(bitmap_data[bit / 8] & (1 << (bit % 8))) != 0\<close>, for a bit number that is not negative.\<close>

definition bit_is_set :: "byte list \<Rightarrow> int \<Rightarrow> bool" where
  "bit_is_set data bit_num =
     ((data ! nat (bit_num div 8)) AND push_bit (nat (bit_num mod 8)) 1 \<noteq> 0)"

definition set_bit_bm :: "BitmapManager \<Rightarrow> int \<Rightarrow> BitmapManager" where
  "set_bit_bm b bit_num =
     (if \<not> is_valid_bit b bit_num then b
      else b\<lparr>bitmap_data := (bitmap_data b)
                 [nat (bit_num div 8) :=
                    (bitmap_data b ! nat (bit_num div 8)) OR push_bit (nat (bit_num mod 8)) 1]\<rparr>)"

definition clear_bit :: "BitmapManager \<Rightarrow> int \<Rightarrow> BitmapManager" where
  "clear_bit b bit_num =
     (if \<not> is_valid_bit b bit_num then b
      else b\<lparr>bitmap_data := (bitmap_data b)
                 [nat (bit_num div 8) :=
                    (bitmap_data b ! nat (bit_num div 8)) AND NOT (push_bit (nat (bit_num mod 8)) 1)]\<rparr>)"

text \<open>The scan of \<^verbatim>\<open>find_free_bit\<close>: \<^verbatim>\<open>for (bit = 0; bit < total_bits; ++bit)\<close>.\<close>

function find_free_from :: "byte list \<Rightarrow> int \<Rightarrow> int \<Rightarrow> int" where
  "find_free_from data total_n bit_num =
     (if bit_num < total_n
      then (if \<not> bit_is_set data bit_num then bit_num
            else find_free_from data total_n (bit_num + 1))
      else -1)"
  by pat_completeness auto
termination
  by (relation "measure (\<lambda>(data, total_n, bit_num). nat (total_n - bit_num))") auto

declare find_free_from.simps [simp del]

definition find_free_bit :: "BitmapManager \<Rightarrow> int" where
  "find_free_bit b =
     (if free_bits_count b = 0 \<or> bitmap_size b = 0 then -1
      else find_free_from (bitmap_data b) (total_bits b) 0)"

text \<open>\<^verbatim>\<open>allocate_bit\<close>: the bit number on success, \<open>None\<close> for \<^verbatim>\<open>false\<close>.\<close>

definition allocate_bit :: "BitmapManager \<Rightarrow> int option \<times> BitmapManager" where
  "allocate_bit b =
     (if \<not> bitmap_check_initialized b then (None, b)
      else let bit_num = find_free_bit b in
        if bit_num = -1 then (None, b)
        else (Some bit_num,
              (set_bit_bm b bit_num)\<lparr>free_bits_count := free_bits_count b - 1\<rparr>))"

definition free_bit :: "BitmapManager \<Rightarrow> int \<Rightarrow> bool \<times> BitmapManager" where
  "free_bit b bit_num =
     (if \<not> bitmap_check_initialized b \<or> \<not> is_valid_bit b bit_num then (False, b)
      else if bit_is_set (bitmap_data b) bit_num
           then (True, (clear_bit b bit_num)\<lparr>free_bits_count := free_bits_count b + 1\<rparr>)
           else (True, b))"

definition is_allocated :: "BitmapManager \<Rightarrow> int \<Rightarrow> bool" where
  "is_allocated b bit_num =
     (if \<not> is_valid_bit b bit_num then False else bit_is_set (bitmap_data b) bit_num)"

definition clear_all :: "BitmapManager \<Rightarrow> BitmapManager" where
  "clear_all b =
     (if bitmap_check_initialized b
      then b\<lparr>bitmap_data := replicate (nat (bitmap_size b)) 0, free_bits_count := total_bits b\<rparr>
      else b)"

text \<open>The counting loop of \<^verbatim>\<open>recalculate_free_bits\<close>.\<close>

function count_free_from :: "byte list \<Rightarrow> int \<Rightarrow> int \<Rightarrow> int \<Rightarrow> int" where
  "count_free_from data total_n bit_num acc =
     (if bit_num < total_n
      then count_free_from data total_n (bit_num + 1)
             (if \<not> bit_is_set data bit_num then acc + 1 else acc)
      else acc)"
  by pat_completeness auto
termination
  by (relation "measure (\<lambda>(data, total_n, bit_num, acc). nat (total_n - bit_num))") auto

declare count_free_from.simps [simp del]

definition recalculate_free_bits :: "BitmapManager \<Rightarrow> BitmapManager" where
  "recalculate_free_bits b =
     (if bitmap_size b = 0 \<or> total_bits b \<le> 0 then b\<lparr>free_bits_count := 0\<rparr>
      else b\<lparr>free_bits_count := count_free_from (bitmap_data b) (total_bits b) 0 0\<rparr>)"

text \<open>
  The loop of \<^verbatim>\<open>load_from_disk\<close>: block \<open>i\<close> is read, then \<open>min(BLOCK_SIZE, remaining)\<close>
  bytes are copied to offset \<open>off\<close> of the array. A failed read returns at once, with the
  bytes copied so far in place.
\<close>

function load_loop ::
  "DiskSimulator \<Rightarrow> int \<Rightarrow> int \<Rightarrow> int \<Rightarrow> byte list \<Rightarrow> nat \<Rightarrow> int \<Rightarrow> bool \<times> byte list" where
  "load_loop dsk start num i data off remaining =
     (if i < num then
        (case read_block dsk (start + i) of
           None \<Rightarrow> (False, data)
         | Some buffer \<Rightarrow>
             let bytes_to_copy = min (int BLOCK_SIZE) remaining in
             if bytes_to_copy \<le> 0 then (True, data)
             else load_loop dsk start num (i + 1)
                    (memcpy data off buffer (nat bytes_to_copy))
                    (off + nat bytes_to_copy) (remaining - bytes_to_copy))
      else (True, data))"
  by pat_completeness auto
termination
  by (relation "measure (\<lambda>(dsk, start, num, i, data, off, remaining). nat (num - i))") auto

declare load_loop.simps [simp del]

definition load_from_disk ::
  "BitmapManager \<Rightarrow> DiskSimulator \<Rightarrow> int \<Rightarrow> int \<Rightarrow> bool \<times> BitmapManager" where
  "load_from_disk b dsk start_block_num num_blocks =
     (if \<not> bitmap_check_initialized b then (False, b)
      else
        let b1 = b\<lparr>start_block := start_block_num, block_count := num_blocks\<rparr>;
            r = load_loop dsk start_block_num num_blocks 0 (bitmap_data b) 0 (bitmap_size b)
        in if \<not> fst r then (False, b1\<lparr>bitmap_data := snd r\<rparr>)
           else (True, recalculate_free_bits (b1\<lparr>bitmap_data := snd r\<rparr>)))"

text \<open>The loop of \<^verbatim>\<open>save_to_disk\<close>; blocks written before a failed write stay written.\<close>

function save_loop ::
  "DiskSimulator \<Rightarrow> int \<Rightarrow> int \<Rightarrow> int \<Rightarrow> byte list \<Rightarrow> nat \<Rightarrow> int \<Rightarrow> bool \<times> DiskSimulator" where
  "save_loop dsk start num i data off remaining =
     (if i < num then
        (let bytes_to_copy = min (int BLOCK_SIZE) remaining;
             buffer = (if bytes_to_copy > 0
                       then memcpy create_block_buffer 0 (drop off data) (nat bytes_to_copy)
                       else create_block_buffer)
         in case write_block dsk (start + i) buffer of
              None \<Rightarrow> (False, dsk)
            | Some dsk' \<Rightarrow>
                (if bytes_to_copy > 0
                 then save_loop dsk' start num (i + 1) data (off + nat bytes_to_copy)
                        (remaining - bytes_to_copy)
                 else save_loop dsk' start num (i + 1) data off remaining))
      else (True, dsk))"
  by pat_completeness auto
termination
  by (relation "measure (\<lambda>(dsk, start, num, i, data, off, remaining). nat (num - i))") auto

declare save_loop.simps [simp del]

definition save_to_disk ::
  "BitmapManager \<Rightarrow> DiskSimulator \<Rightarrow> int \<Rightarrow> int \<Rightarrow> (bool \<times> BitmapManager) \<times> DiskSimulator" where
  "save_to_disk b dsk start_block_num num_blocks =
     (if \<not> bitmap_check_initialized b then ((False, b), dsk)
      else
        let b1 = b\<lparr>start_block := start_block_num, block_count := num_blocks\<rparr>;
            r = save_loop dsk start_block_num num_blocks 0 (bitmap_data b) 0 (bitmap_size b)
        in ((fst r, b1), snd r))"

definition get_total_bits :: "BitmapManager \<Rightarrow> int" where
  "get_total_bits b = total_bits b"

definition get_free_bits :: "BitmapManager \<Rightarrow> int" where
  "get_free_bits b = free_bits_count b"

definition get_used_bits :: "BitmapManager \<Rightarrow> int" where
  "get_used_bits b = total_bits b - free_bits_count b"

text \<open>The number of zero bits among the bits \<open>0 .. total_bits - 1\<close> of the array.\<close>

definition zero_bits :: "BitmapManager \<Rightarrow> int" where
  "zero_bits b =
     int (length (filter (\<lambda>n. \<not> bit_is_set (bitmap_data b) (int n)) [0..<nat (total_bits b)]))"

text \<open>The array has the size the constructor gave it.\<close>

definition bitmap_wf :: "BitmapManager \<Rightarrow> bool" where
  "bitmap_wf b =
     (bitmap_size b = (if total_bits b > 0 then (total_bits b + 7) div 8 else 0) \<and>
      length (bitmap_data b) = nat (bitmap_size b))"

text \<open>The consistency of the cached counter with the array.\<close>

definition bitmap_inv :: "BitmapManager \<Rightarrow> bool" where
  "bitmap_inv b = (total_bits b \<ge> 0 \<and> bitmap_wf b \<and> free_bits_count b = zero_bits b)"

subsection \<open>The file system state\<close>

text \<open>
  One record holds what \<^verbatim>\<open>class FileSystem\<close> owns: the block device, the cached
  superblock and layout, the inode manager with its two bitmaps, the mount flag and the
  open-file table. The managers of the source hold references into this state; their
  methods are functions of the whole state here. The bitmaps of an inode manager that was
  never initialised (null pointers in the source) are never read: every method checks
  \<open>initialized\<close> first.
\<close>

record InodeManager =
  im_layout :: DiskLayout
  inode_bitmap :: BitmapManager
  data_bitmap :: BitmapManager
  initialized :: bool

record FileSystem =
  disk :: DiskSimulator
  superblock :: Superblock
  inode_manager :: InodeManager
  layout :: DiskLayout
  mounted :: bool
  file_descriptors :: "int \<rightharpoonup> FileDescriptor"
  next_fd :: int

text \<open>The state a \<^verbatim>\<open>FileSystem\<close> object is constructed with. The superblock is not
  initialised by the constructor; the model zeroes it.\<close>

definition new_FileSystem :: FileSystem where
  "new_FileSystem =
     \<lparr>disk = new_DiskSimulator,
      superblock = decode_superblock (replicate BLOCK_SIZE 0),
      inode_manager =
        \<lparr>im_layout = calculate_layout new_DiskSimulator,
         inode_bitmap = new_BitmapManager 0, data_bitmap = new_BitmapManager 0,
         initialized = False\<rparr>,
      layout = calculate_layout new_DiskSimulator,
      mounted = False, file_descriptors = Map.empty, next_fd = 3\<rparr>"

subsection \<open>The inode manager (\<^verbatim>\<open>src/core/inode_manager.cpp\<close>)\<close>

definition inode_check_initialized :: "FileSystem \<Rightarrow> bool" where
  "inode_check_initialized s = initialized (inode_manager s)"

definition get_total_inodes :: "FileSystem \<Rightarrow> int" where
  "get_total_inodes s =
     (if initialized (inode_manager s) then get_total_bits (inode_bitmap (inode_manager s)) else 0)"

definition get_free_inodes :: "FileSystem \<Rightarrow> int" where
  "get_free_inodes s =
     (if initialized (inode_manager s) then get_free_bits (inode_bitmap (inode_manager s)) else 0)"

definition get_free_data_blocks :: "FileSystem \<Rightarrow> int" where
  "get_free_data_blocks s =
     (if initialized (inode_manager s) then get_free_bits (data_bitmap (inode_manager s)) else 0)"

text \<open>The block that holds inode \<open>n\<close> and the offset of its slot in that block.\<close>

definition get_inode_position :: "FileSystem \<Rightarrow> int \<Rightarrow> (int \<times> nat) option" where
  "get_inode_position s inode_n =
     (if inode_n < 0 \<or> inode_n \<ge> get_total_inodes s then None
      else Some (inode_table_start (im_layout (inode_manager s)) + inode_n div INODES_PER_BLOCK,
                 nat (inode_n mod INODES_PER_BLOCK) * INODE_SIZE))"

definition read_inode :: "FileSystem \<Rightarrow> int \<Rightarrow> Inode option" where
  "read_inode s inode_n =
     (if \<not> inode_check_initialized s then None
      else case get_inode_position s inode_n of
        None \<Rightarrow> None
      | Some (block_num, offset_in_block) \<Rightarrow>
          (case read_block (disk s) block_num of
             None \<Rightarrow> None
           | Some buffer \<Rightarrow> Some (decode_inode (take INODE_SIZE (drop offset_in_block buffer)))))"

text \<open>Read-modify-write of the block that holds the slot; \<open>None\<close> is \<^verbatim>\<open>false\<close>, and
  nothing was written.\<close>

definition write_inode :: "FileSystem \<Rightarrow> int \<Rightarrow> Inode \<Rightarrow> FileSystem option" where
  "write_inode s inode_n inode =
     (if \<not> inode_check_initialized s then None
      else case get_inode_position s inode_n of
        None \<Rightarrow> None
      | Some (block_num, offset_in_block) \<Rightarrow>
          (case read_block (disk s) block_num of
             None \<Rightarrow> None
           | Some buffer \<Rightarrow>
               (case write_block (disk s) block_num
                       (memcpy buffer offset_in_block (encode_inode inode) INODE_SIZE) of
                  None \<Rightarrow> None
                | Some d' \<Rightarrow> Some (s\<lparr>disk := d'\<rparr>))))"

text \<open>A sequence of \<^verbatim>\<open>write_inode\<close> calls that all succeed.\<close>

fun write_inodes :: "FileSystem \<Rightarrow> (int \<times> Inode) list \<Rightarrow> FileSystem option" where
  "write_inodes s [] = Some s"
| "write_inodes s ((m, J) # ws) =
     (case write_inode s m J of None \<Rightarrow> None | Some s' \<Rightarrow> write_inodes s' ws)"

text \<open>\<open>now\<close> is the value \<^verbatim>\<open>time(nullptr)\<close> returns during the call.\<close>

definition initialize_new_inode :: "64 word \<Rightarrow> Inode" where
  "initialize_new_inode now =
     \<lparr>mode = 0, owner_id = 0, group_id = 0, size_i = 0,
      access_time = now, modification_time = now, creation_time = now,
      link_count = 1, direct_blocks = replicate DIRECT_BLOCKS_COUNT 0,
      indirect_block = -1, double_indirect_block = -1\<rparr>"

text \<open>\<^verbatim>\<open>FileOperationsUtils::initialize_new_inode(inode, mode, link_count)\<close>.\<close>

definition fou_initialize_new_inode :: "64 word \<Rightarrow> int \<Rightarrow> int \<Rightarrow> Inode" where
  "fou_initialize_new_inode now md links =
     \<lparr>mode = word_of_int md, owner_id = 0, group_id = 0, size_i = 0,
      access_time = now, modification_time = now, creation_time = now,
      link_count = word_of_int links, direct_blocks = replicate DIRECT_BLOCKS_COUNT 0,
      indirect_block = -1, double_indirect_block = -1\<rparr>"

definition set_inode_bitmap :: "FileSystem \<Rightarrow> BitmapManager \<Rightarrow> FileSystem" where
  "set_inode_bitmap s b = s\<lparr>inode_manager := (inode_manager s)\<lparr>inode_bitmap := b\<rparr>\<rparr>"

definition set_data_bitmap :: "FileSystem \<Rightarrow> BitmapManager \<Rightarrow> FileSystem" where
  "set_data_bitmap s b = s\<lparr>inode_manager := (inode_manager s)\<lparr>data_bitmap := b\<rparr>\<rparr>"

definition save_inode_bitmap :: "FileSystem \<Rightarrow> bool \<times> FileSystem" where
  "save_inode_bitmap s =
     (let lay = im_layout (inode_manager s);
          r = save_to_disk (inode_bitmap (inode_manager s)) (disk s)
                (inode_bitmap_start lay) (inode_bitmap_blocks lay)
      in (fst (fst r), (set_inode_bitmap s (snd (fst r)))\<lparr>disk := snd r\<rparr>))"

definition save_data_bitmap :: "FileSystem \<Rightarrow> bool \<times> FileSystem" where
  "save_data_bitmap s =
     (let lay = im_layout (inode_manager s);
          r = save_to_disk (data_bitmap (inode_manager s)) (disk s)
                (data_bitmap_start lay) (data_bitmap_blocks lay)
      in (fst (fst r), (set_data_bitmap s (snd (fst r)))\<lparr>disk := snd r\<rparr>))"

text \<open>\<^verbatim>\<open>data_bitmap->free_bit(block - layout.data_blocks_start)\<close>.\<close>

definition free_data_bit :: "FileSystem \<Rightarrow> int \<Rightarrow> FileSystem" where
  "free_data_bit s block_n =
     set_data_bitmap s
       (snd (free_bit (data_bitmap (inode_manager s))
               (block_n - data_blocks_start (im_layout (inode_manager s)))))"

definition is_inode_allocated :: "FileSystem \<Rightarrow> int \<Rightarrow> bool" where
  "is_inode_allocated s inode_n =
     (if \<not> initialized (inode_manager s) then False
      else is_allocated (inode_bitmap (inode_manager s)) inode_n)"

definition allocate_inode :: "FileSystem \<Rightarrow> 64 word \<Rightarrow> int option \<times> FileSystem" where
  "allocate_inode s now =
     (if \<not> inode_check_initialized s then (None, s)
      else case allocate_bit (inode_bitmap (inode_manager s)) of
        (None, b') \<Rightarrow> (None, set_inode_bitmap s b')
      | (Some inode_n, b') \<Rightarrow>
          (let s1 = set_inode_bitmap s b' in
           case write_inode s1 inode_n (initialize_new_inode now) of
             None \<Rightarrow> (None, set_inode_bitmap s1 (snd (free_bit b' inode_n)))
           | Some s2 \<Rightarrow>
               (case save_inode_bitmap s2 of
                  (False, s3) \<Rightarrow>
                    (None, set_inode_bitmap s3
                             (snd (free_bit (inode_bitmap (inode_manager s3)) inode_n)))
                | (True, s3) \<Rightarrow> (Some inode_n, s3))))"

text \<open>An indirect block is an array of 1024 \<^verbatim>\<open>int\<close>s, read up to its first zero.\<close>

definition read_indirect_block :: "DiskSimulator \<Rightarrow> int \<Rightarrow> int list option" where
  "read_indirect_block d block_n =
     (case read_block d block_n of
        None \<Rightarrow> None
      | Some buffer \<Rightarrow>
          Some (takeWhile (\<lambda>x. x \<noteq> 0)
                  (map (\<lambda>i. sint (rd32 buffer (4 * i))) [0..<PTRS_PER_BLOCK])))"

definition write_indirect_block :: "DiskSimulator \<Rightarrow> int \<Rightarrow> int list \<Rightarrow> DiskSimulator option" where
  "write_indirect_block d block_n data_blocks =
     write_block d block_n
       (memcpy create_block_buffer 0
          (concat (map (\<lambda>x. le32 (word_of_int x)) (take PTRS_PER_BLOCK data_blocks)))
          (4 * min (length data_blocks) PTRS_PER_BLOCK))"

text \<open>A bit of the data bitmap is taken and the block zeroed; when the write fails the
  bit stays taken.\<close>

definition allocate_indirect_block :: "FileSystem \<Rightarrow> int option \<times> FileSystem" where
  "allocate_indirect_block s =
     (case allocate_bit (data_bitmap (inode_manager s)) of
        (None, b') \<Rightarrow> (None, set_data_bitmap s b')
      | (Some bit_num, b') \<Rightarrow>
          (let block_n = data_blocks_start (im_layout (inode_manager s)) + bit_num;
               s1 = set_data_bitmap s b'
           in case write_block (disk s1) block_n create_block_buffer of
                None \<Rightarrow> (None, s1)
              | Some d' \<Rightarrow> (Some block_n, s1\<lparr>disk := d'\<rparr>)))"

definition free_indirect_block :: "FileSystem \<Rightarrow> int \<Rightarrow> FileSystem" where
  "free_indirect_block s block_n = (if block_n = -1 then s else free_data_bit s block_n)"

definition allocate_single_block :: "FileSystem \<Rightarrow> int option \<times> FileSystem" where
  "allocate_single_block s =
     (case allocate_bit (data_bitmap (inode_manager s)) of
        (None, b') \<Rightarrow> (None, set_data_bitmap s b')
      | (Some bit_num, b') \<Rightarrow>
          (Some (data_blocks_start (im_layout (inode_manager s)) + bit_num),
           set_data_bitmap s b'))"

text \<open>\<^verbatim>\<open>allocate_multiple_blocks\<close>: \<open>acc\<close> holds the blocks taken so far, released
  again when one allocation fails.\<close>

fun allocate_multiple_blocks ::
  "nat \<Rightarrow> int list \<Rightarrow> FileSystem \<Rightarrow> int list option \<times> FileSystem" where
  "allocate_multiple_blocks 0 acc s = (Some acc, s)"
| "allocate_multiple_blocks (Suc k) acc s =
     (case allocate_single_block s of
        (None, s') \<Rightarrow> (None, foldl free_data_bit s' acc)
      | (Some block_index, s') \<Rightarrow> allocate_multiple_blocks k (acc @ [block_index]) s')"

text \<open>The blocks listed by the inner indirect blocks of a double-indirect block.\<close>

fun read_inner_blocks :: "DiskSimulator \<Rightarrow> int list \<Rightarrow> int list option" where
  "read_inner_blocks d [] = Some []"
| "read_inner_blocks d (p # ps) =
     (case read_indirect_block d p of
        None \<Rightarrow> None
      | Some blocks \<Rightarrow>
          (case read_inner_blocks d ps of
             None \<Rightarrow> None
           | Some rest \<Rightarrow> Some (blocks @ rest)))"

definition get_data_blocks :: "FileSystem \<Rightarrow> int \<Rightarrow> int list option" where
  "get_data_blocks s inode_n =
     (if \<not> inode_check_initialized s then None
      else case read_inode s inode_n of
        None \<Rightarrow> None
      | Some inode \<Rightarrow>
          (let direct = filter (\<lambda>x. x \<noteq> 0) (map sint (direct_blocks inode)) in
           case (if indirect_block inode \<noteq> -1
                 then read_indirect_block (disk s) (sint (indirect_block inode))
                 else Some []) of
             None \<Rightarrow> None
           | Some single \<Rightarrow>
               (case (if double_indirect_block inode \<noteq> -1
                      then (case read_indirect_block (disk s) (sint (double_indirect_block inode)) of
                              None \<Rightarrow> None
                            | Some ptrs \<Rightarrow> read_inner_blocks (disk s) ptrs)
                      else Some []) of
                  None \<Rightarrow> None
                | Some double \<Rightarrow> Some (direct @ single @ double))))"

text \<open>
  The loop of \<^verbatim>\<open>update_inode_block_pointers\<close> over \<open>all_blocks\<close>: \<open>i\<close> is the index of the
  head of the list that is left. The result \<open>None\<close> is \<^verbatim>\<open>return false\<close>; what was written
  or allocated before stays.
\<close>

fun refill_pointers ::
  "int list \<Rightarrow> nat \<Rightarrow> Inode \<Rightarrow> FileSystem \<Rightarrow> Inode option \<times> FileSystem" where
  "refill_pointers [] i inode s = (Some inode, s)"
| "refill_pointers (b # bs) i inode s =
     (if i < DIRECT_BLOCKS_COUNT
      then refill_pointers bs (i + 1)
             (inode\<lparr>direct_blocks := (direct_blocks inode)[i := word_of_int b]\<rparr>) s
      else if i - DIRECT_BLOCKS_COUNT < PTRS_PER_BLOCK then
        (case (if i - DIRECT_BLOCKS_COUNT = 0 \<and> indirect_block inode = -1
               then (case allocate_indirect_block s of
                       (None, s') \<Rightarrow> (None, s')
                     | (Some block_n, s') \<Rightarrow>
                         (Some (inode\<lparr>indirect_block := word_of_int block_n\<rparr>), s'))
               else (Some inode, s)) of
           (None, s') \<Rightarrow> (None, s')
         | (Some inode', s') \<Rightarrow>
             (let indirect_blocks =
                    (if indirect_block inode' \<noteq> -1
                     then (case read_indirect_block (disk s') (sint (indirect_block inode')) of
                             None \<Rightarrow> [] | Some l \<Rightarrow> l)
                     else [])
              in case write_indirect_block (disk s') (sint (indirect_block inode'))
                        (indirect_blocks @ [b]) of
                   None \<Rightarrow> (None, s')
                 | Some d' \<Rightarrow> refill_pointers bs (i + 1) inode' (s'\<lparr>disk := d'\<rparr>)))
      else
        (case (if double_indirect_block inode = -1
               then (case allocate_indirect_block s of
                       (None, s') \<Rightarrow> (None, s')
                     | (Some block_n, s') \<Rightarrow>
                         (Some (inode\<lparr>double_indirect_block := word_of_int block_n\<rparr>), s'))
               else (Some inode, s)) of
           (None, s') \<Rightarrow> (None, s')
         | (Some inode', s') \<Rightarrow>
             (let d_indirect_idx = (i - DIRECT_BLOCKS_COUNT - PTRS_PER_BLOCK) div PTRS_PER_BLOCK in
              if d_indirect_idx \<ge> PTRS_PER_BLOCK then (None, s')
              else
                let pointers = (case read_indirect_block (disk s')
                                       (sint (double_indirect_block inode')) of
                                  None \<Rightarrow> [] | Some l \<Rightarrow> l);
                    target0 = (if d_indirect_idx < length pointers
                               then pointers ! d_indirect_idx else 0)
                in case (if target0 = 0
                         then (case allocate_indirect_block s' of
                                 (None, s'') \<Rightarrow> (None, s'')
                               | (Some block_n, s'') \<Rightarrow>
                                   (let pointers' =
                                          (pointers @ replicate (d_indirect_idx + 1 - length pointers) 0)
                                            [d_indirect_idx := block_n]
                                    in case write_indirect_block (disk s'')
                                              (sint (double_indirect_block inode')) pointers' of
                                         None \<Rightarrow> (None, s'')
                                       | Some d' \<Rightarrow> (Some block_n, s''\<lparr>disk := d'\<rparr>)))
                         else (Some target0, s')) of
                     (None, s'') \<Rightarrow> (None, s'')
                   | (Some target, s'') \<Rightarrow>
                       (let indirect_blocks =
                              (case read_indirect_block (disk s'') target of
                                 None \<Rightarrow> [] | Some l \<Rightarrow> l)
                        in case write_indirect_block (disk s'') target (indirect_blocks @ [b]) of
                             None \<Rightarrow> (None, s'')
                           | Some d' \<Rightarrow> refill_pointers bs (i + 1) inode' (s''\<lparr>disk := d'\<rparr>)))))"

definition update_inode_block_pointers ::
  "FileSystem \<Rightarrow> int \<Rightarrow> int list \<Rightarrow> 64 word \<Rightarrow> bool \<times> FileSystem" where
  "update_inode_block_pointers s inode_id block_indices now =
     (case read_inode s inode_id of
        None \<Rightarrow> (False, s)
      | Some inode \<Rightarrow>
          (case get_data_blocks s inode_id of
             None \<Rightarrow> (False, s)
           | Some all_blocks0 \<Rightarrow>
               (let all_blocks = all_blocks0 @ block_indices;
                    inode1 = inode\<lparr>direct_blocks := replicate DIRECT_BLOCKS_COUNT 0\<rparr>;
                    s1 = (if indirect_block inode1 \<noteq> -1
                          then free_indirect_block s (sint (indirect_block inode1)) else s);
                    inode2 = (if indirect_block inode1 \<noteq> -1
                              then inode1\<lparr>indirect_block := -1\<rparr> else inode1)
                in case refill_pointers all_blocks 0 inode2 s1 of
                     (None, s2) \<Rightarrow> (False, s2)
                   | (Some inode3, s2) \<Rightarrow>
                       (case write_inode s2 inode_id (inode3\<lparr>modification_time := now\<rparr>) of
                          None \<Rightarrow> (False, s2)
                        | Some s3 \<Rightarrow> (True, s3)))))"

definition allocate_data_blocks ::
  "FileSystem \<Rightarrow> int \<Rightarrow> int \<Rightarrow> 64 word \<Rightarrow> int list option \<times> FileSystem" where
  "allocate_data_blocks s inode_n block_cnt now =
     (if \<not> inode_check_initialized s \<or> block_cnt \<le> 0 then (None, s)
      else case allocate_multiple_blocks (nat block_cnt) [] s of
        (None, s1) \<Rightarrow> (None, s1)
      | (Some allocated_indices, s1) \<Rightarrow>
          (case update_inode_block_pointers s1 inode_n allocated_indices now of
             (False, s2) \<Rightarrow> (None, foldl free_data_bit s2 allocated_indices)
           | (True, s2) \<Rightarrow>
               (case save_data_bitmap s2 of
                  (False, s3) \<Rightarrow> (None, s3)
                | (True, s3) \<Rightarrow> (Some allocated_indices, s3))))"

text \<open>
  \<^verbatim>\<open>free_all_data_blocks_for_inode\<close>: the direct blocks, the blocks listed by the
  single-indirect block and that block itself, and the double-indirect block alone.
\<close>

definition free_all_data_blocks_for_inode :: "FileSystem \<Rightarrow> Inode \<Rightarrow> Inode \<times> FileSystem" where
  "free_all_data_blocks_for_inode s inode =
     (let s1 = foldl free_data_bit s (filter (\<lambda>x. x \<noteq> 0) (map sint (direct_blocks inode)));
          inode1 = inode\<lparr>direct_blocks := map (\<lambda>x. 0) (direct_blocks inode)\<rparr>;
          s2 = (if indirect_block inode1 \<noteq> -1
                then free_indirect_block
                       (case read_indirect_block (disk s1) (sint (indirect_block inode1)) of
                          None \<Rightarrow> s1
                        | Some indirect_blocks \<Rightarrow> foldl free_data_bit s1 indirect_blocks)
                       (sint (indirect_block inode1))
                else s1);
          inode2 = (if indirect_block inode1 \<noteq> -1
                    then inode1\<lparr>indirect_block := -1\<rparr> else inode1);
          s3 = (if double_indirect_block inode2 \<noteq> -1
                then free_indirect_block s2 (sint (double_indirect_block inode2)) else s2);
          inode3 = (if double_indirect_block inode2 \<noteq> -1
                    then inode2\<lparr>double_indirect_block := -1\<rparr> else inode2)
      in (inode3, s3))"

definition free_data_blocks :: "FileSystem \<Rightarrow> int \<Rightarrow> bool \<times> FileSystem" where
  "free_data_blocks s inode_n =
     (if \<not> inode_check_initialized s then (False, s)
      else case read_inode s inode_n of
        None \<Rightarrow> (False, s)
      | Some inode \<Rightarrow>
          (case free_all_data_blocks_for_inode s inode of
             (inode', s1) \<Rightarrow>
               (case write_inode s1 inode_n (inode'\<lparr>size_i := 0\<rparr>) of
                  None \<Rightarrow> (False, s1)
                | Some s2 \<Rightarrow> save_data_bitmap s2)))"

definition free_inode :: "FileSystem \<Rightarrow> int \<Rightarrow> bool \<times> FileSystem" where
  "free_inode s inode_n =
     (if \<not> inode_check_initialized s then (False, s)
      else if \<not> is_inode_allocated s inode_n then (False, s)
      else case free_data_blocks s inode_n of
        (False, s1) \<Rightarrow> (False, s1)
      | (True, s1) \<Rightarrow>
          save_inode_bitmap
            (set_inode_bitmap s1 (snd (free_bit (inode_bitmap (inode_manager s1)) inode_n))))"

definition load_bitmaps :: "FileSystem \<Rightarrow> bool \<times> FileSystem" where
  "load_bitmaps s =
     (let lay = im_layout (inode_manager s);
          r1 = load_from_disk (inode_bitmap (inode_manager s)) (disk s)
                 (inode_bitmap_start lay) (inode_bitmap_blocks lay);
          s1 = set_inode_bitmap s (snd r1)
      in if \<not> fst r1 then (False, s1)
         else let r2 = load_from_disk (data_bitmap (inode_manager s1)) (disk s1)
                         (data_bitmap_start lay) (data_bitmap_blocks lay)
              in (fst r2, set_data_bitmap s1 (snd r2)))"

definition initialize :: "FileSystem \<Rightarrow> DiskLayout \<Rightarrow> bool \<times> FileSystem" where
  "initialize s lay =
     (let s1 = s\<lparr>inode_manager := (inode_manager s)
                   \<lparr>im_layout := lay,
                    inode_bitmap := new_BitmapManager (inode_table_blocks lay * INODES_PER_BLOCK),
                    data_bitmap := new_BitmapManager (data_blocks_count lay)\<rparr>\<rparr>
      in case load_bitmaps s1 of
           (False, s2) \<Rightarrow> (False, s2)
         | (True, s2) \<Rightarrow> (True, s2\<lparr>inode_manager := (inode_manager s2)\<lparr>initialized := True\<rparr>\<rparr>))"

definition reload_bitmap :: "FileSystem \<Rightarrow> bool \<times> FileSystem" where
  "reload_bitmap s = (if \<not> inode_check_initialized s then (False, s) else load_bitmaps s)"

subsection \<open>Directories (\<^verbatim>\<open>src/core/directory_manager.cpp\<close>)\<close>

text \<open>
  A \<^verbatim>\<open>std::string\<close> is a \<^typ>\<open>string\<close>; its characters are stored as bytes. C strings end
  at the first zero byte. A name array without a zero byte would make \<^verbatim>\<open>strcmp\<close> read past
  the array in the source; the model compares the 256 bytes of the array.
\<close>

definition c_str :: "string \<Rightarrow> byte list" where
  "c_str s = map of_char s @ [0]"

definition cstring :: "byte list \<Rightarrow> byte list" where
  "cstring bs = takeWhile (\<lambda>b. b \<noteq> 0) bs"

text \<open>\<^verbatim>\<open>strcmp(a, b) == 0\<close> and \<^verbatim>\<open>strncmp(a, b, n) == 0\<close>.\<close>

definition strcmp_eq :: "byte list \<Rightarrow> byte list \<Rightarrow> bool" where
  "strcmp_eq a b = (cstring a = cstring b)"

definition strncmp_eq :: "byte list \<Rightarrow> byte list \<Rightarrow> nat \<Rightarrow> bool" where
  "strncmp_eq a b n = (take n (cstring a) = take n (cstring b))"

text \<open>\<^verbatim>\<open>strncpy(dest, src, n)\<close> into a zeroed array of 256 bytes.\<close>

definition strncpy_name :: "byte list \<Rightarrow> nat \<Rightarrow> byte list" where
  "strncpy_name src n =
     take MAX_FILENAME_LENGTH (take n (cstring src) @ replicate MAX_FILENAME_LENGTH 0)"

definition load_directory_inode :: "FileSystem \<Rightarrow> int \<Rightarrow> Inode option" where
  "load_directory_inode s inode_n =
     (case read_inode s inode_n of
        None \<Rightarrow> None
      | Some inode \<Rightarrow>
          if mode inode AND 0x4000 = 0 then None else Some inode)"

text \<open>The fifteen slots of a directory block.\<close>

definition block_slots :: "byte list \<Rightarrow> DirectoryEntry list" where
  "block_slots buffer =
     map (\<lambda>i. decode_dirent (take DIRENT_SIZE (drop (i * DIRENT_SIZE) buffer)))
       [0..<DIRENTS_PER_BLOCK]"

fun read_directory_blocks :: "DiskSimulator \<Rightarrow> int list \<Rightarrow> DirectoryEntry list option" where
  "read_directory_blocks d [] = Some []"
| "read_directory_blocks d (block_n # blocks) =
     (case read_block d block_n of
        None \<Rightarrow> None
      | Some buffer \<Rightarrow>
          (case read_directory_blocks d blocks of
             None \<Rightarrow> None
           | Some rest \<Rightarrow>
               Some (filter (\<lambda>e. sint (name_length e) > 0) (block_slots buffer) @ rest)))"

text \<open>\<^verbatim>\<open>read_directory\<close>, of \<^verbatim>\<open>DirectoryManager\<close> and of \<^verbatim>\<open>FileSystem\<close> alike.\<close>

definition read_directory :: "FileSystem \<Rightarrow> int \<Rightarrow> DirectoryEntry list option" where
  "read_directory s inode_n =
     (case load_directory_inode s inode_n of
        None \<Rightarrow> None
      | Some inode \<Rightarrow>
          if size_i inode = 0 then Some []
          else (case get_data_blocks s inode_n of
                  None \<Rightarrow> None
                | Some blocks \<Rightarrow> read_directory_blocks (disk s) blocks))"

text \<open>\<^verbatim>\<open>BlockUtils::is_valid_block_index\<close> of the block number cast to \<^verbatim>\<open>uint32_t\<close>:
  below \<^verbatim>\<open>DISK_SIZE / BLOCK_SIZE\<close>.\<close>

definition is_valid_block_index :: "int \<Rightarrow> bool" where
  "is_valid_block_index block_index = (0 \<le> block_index \<and> block_index < 25600)"

text \<open>The block that holds the given entries, packed from slot 0.\<close>

definition fill_dir_block :: "DirectoryEntry list \<Rightarrow> byte list" where
  "fill_dir_block es =
     memcpy create_block_buffer 0 (concat (map encode_dirent es)) (DIRENT_SIZE * length es)"

text \<open>The writing loop of \<^verbatim>\<open>write_directory\<close>: each block of the list takes the next
  fifteen entries that are left.\<close>

fun write_directory_blocks ::
  "DiskSimulator \<Rightarrow> int list \<Rightarrow> DirectoryEntry list \<Rightarrow> bool \<times> DiskSimulator" where
  "write_directory_blocks d [] es = (True, d)"
| "write_directory_blocks d (block_n # blocks) es =
     (if \<not> is_valid_block_index block_n then (False, d)
      else case write_block d block_n (fill_dir_block (take DIRENTS_PER_BLOCK es)) of
        None \<Rightarrow> (False, d)
      | Some d' \<Rightarrow> write_directory_blocks d' blocks (drop DIRENTS_PER_BLOCK es))"

text \<open>\<^verbatim>\<open>write_directory\<close>. The inode written back at the end is the copy read at the
  start, with the new size and time.\<close>

definition write_directory ::
  "FileSystem \<Rightarrow> int \<Rightarrow> DirectoryEntry list \<Rightarrow> 64 word \<Rightarrow> bool \<times> FileSystem" where
  "write_directory s inode_n entries now =
     (case read_inode s inode_n of
        None \<Rightarrow> (False, s)
      | Some inode \<Rightarrow>
          (let required_size = length entries * DIRENT_SIZE;
               required_blocks = (required_size + BLOCK_SIZE - 1) div BLOCK_SIZE
           in case get_data_blocks s inode_n of
                None \<Rightarrow> (False, s)
              | Some current_blocks0 \<Rightarrow>
                  (case (if length current_blocks0 < required_blocks
                         then (case allocate_data_blocks s inode_n
                                      (int (required_blocks - length current_blocks0)) now of
                                 (None, s1) \<Rightarrow> (None, s1)
                               | (Some new_blocks, s1) \<Rightarrow> (get_data_blocks s1 inode_n, s1))
                         else (Some current_blocks0, s)) of
                     (None, s1) \<Rightarrow> (False, s1)
                   | (Some current_blocks, s1) \<Rightarrow>
                       (case write_directory_blocks (disk s1) current_blocks entries of
                          (False, d') \<Rightarrow> (False, s1\<lparr>disk := d'\<rparr>)
                        | (True, d') \<Rightarrow>
                            (case write_inode (s1\<lparr>disk := d'\<rparr>) inode_n
                                    (inode\<lparr>size_i := word_of_int (int required_size),
                                           modification_time := now\<rparr>) of
                               None \<Rightarrow> (False, s1\<lparr>disk := d'\<rparr>)
                             | Some s2 \<Rightarrow> (True, s2))))))"

text \<open>\<^verbatim>\<open>find_entry_index\<close>: is there an entry whose name compares equal with
  \<^verbatim>\<open>strncmp(entry.name, name.c_str(), MAX_FILENAME_LENGTH)\<close>?\<close>

definition entry_present :: "DirectoryEntry list \<Rightarrow> string \<Rightarrow> bool" where
  "entry_present entries nm =
     (\<exists>e \<in> set entries. strncmp_eq (name e) (c_str nm) MAX_FILENAME_LENGTH)"

definition new_dirent :: "string \<Rightarrow> int \<Rightarrow> DirectoryEntry" where
  "new_dirent nm inode_n =
     (let name_len = min (length nm) (MAX_FILENAME_LENGTH - 1)
      in \<lparr>inode_number = word_of_int inode_n,
          name = strncpy_name (c_str nm) name_len,
          name_length = word_of_int (int name_len)\<rparr>)"

definition add_directory_entry ::
  "FileSystem \<Rightarrow> int \<Rightarrow> string \<Rightarrow> int \<Rightarrow> 64 word \<Rightarrow> bool \<times> FileSystem" where
  "add_directory_entry s dir_inode nm inode_n now =
     (case read_directory s dir_inode of
        None \<Rightarrow> (False, s)
      | Some entries \<Rightarrow>
          if entry_present entries nm then (False, s)
          else write_directory s dir_inode (entries @ [new_dirent nm inode_n]) now)"

subsection \<open>Paths (\<^verbatim>\<open>path_manager.cpp\<close>, \<^verbatim>\<open>path_utils.cpp\<close>)\<close>

definition validate_path :: "string \<Rightarrow> bool" where
  "validate_path path =
     (if path = [] \<or> length path > MAX_PATH_LENGTH then False
      else \<not> (\<exists>c \<in> set path. c = CHR 0x00 \<or> c = CHR 0x0A \<or> c = CHR 0x0D))"

text \<open>The part after the last slash, and the part before it.\<close>

definition after_last_slash :: "string \<Rightarrow> string" where
  "after_last_slash path = rev (takeWhile (\<lambda>c. c \<noteq> CHR ''/'') (rev path))"

definition before_last_slash :: "string \<Rightarrow> string" where
  "before_last_slash path = rev (tl (dropWhile (\<lambda>c. c \<noteq> CHR ''/'') (rev path)))"

definition extract_filename :: "string \<Rightarrow> string" where
  "extract_filename path =
     (if \<not> validate_path path then []
      else if CHR ''/'' \<notin> set path then path
      else after_last_slash path)"

definition extract_directory :: "string \<Rightarrow> string" where
  "extract_directory path =
     (if \<not> validate_path path then []
      else if CHR ''/'' \<notin> set path then ''.''
      else if before_last_slash path = [] then ''/''
      else before_last_slash path)"

text \<open>\<^verbatim>\<open>validate_and_parse_path\<close>: the file name and the directory of a path.\<close>

definition validate_and_parse_path :: "string \<Rightarrow> (string \<times> string) option" where
  "validate_and_parse_path path =
     (if \<not> validate_path path then None
      else let filename = extract_filename path;
               directory0 = extract_directory path;
               directory1 = (if directory0 = ''.'' then ''/'' else directory0);
               directory = (if directory1 = [] then ''/'' else directory1)
           in Some (filename, directory))"

text \<open>The pieces \<^verbatim>\<open>std::getline(ss, component, '/')\<close> yields.\<close>

fun split_slash :: "string \<Rightarrow> string \<Rightarrow> string list" where
  "split_slash cur [] = (if cur = [] then [] else [cur])"
| "split_slash cur (c # cs) =
     (if c = CHR ''/'' then cur # split_slash [] cs else split_slash (cur @ [c]) cs)"

definition parse_path :: "string \<Rightarrow> string list option" where
  "parse_path path =
     (if path = [] then None
      else if path = ''/'' then Some []
      else let p = (if hd path \<noteq> CHR ''/'' then CHR ''/'' # path else path)
           in Some (filter (\<lambda>component. component \<noteq> []) (split_slash [] (tl p))))"

text \<open>The scan of \<^verbatim>\<open>find_inode_in_directory\<close> over the blocks of a directory; the
  result \<open>-1\<close> is ``not found''.\<close>

definition slot_matches :: "string \<Rightarrow> DirectoryEntry \<Rightarrow> bool" where
  "slot_matches nm e = (sint (name_length e) > 0 \<and> strcmp_eq (name e) (c_str nm))"

fun scan_directory_blocks :: "DiskSimulator \<Rightarrow> int list \<Rightarrow> string \<Rightarrow> int" where
  "scan_directory_blocks d [] nm = -1"
| "scan_directory_blocks d (block_n # blocks) nm =
     (case read_block d block_n of
        None \<Rightarrow> -1
      | Some buffer \<Rightarrow>
          (case find (slot_matches nm) (block_slots buffer) of
             Some e \<Rightarrow> sint (inode_number e)
           | None \<Rightarrow> scan_directory_blocks d blocks nm))"

definition find_inode_in_directory :: "FileSystem \<Rightarrow> int \<Rightarrow> string \<Rightarrow> int" where
  "find_inode_in_directory s parent_inode nm =
     (case load_directory_inode s parent_inode of
        None \<Rightarrow> -1
      | Some parent_inode_info \<Rightarrow>
          (case get_data_blocks s parent_inode of
             None \<Rightarrow> -1
           | Some blocks \<Rightarrow> scan_directory_blocks (disk s) blocks nm))"

fun walk_components :: "FileSystem \<Rightarrow> int \<Rightarrow> string list \<Rightarrow> int" where
  "walk_components s current_inode [] = current_inode"
| "walk_components s current_inode (component # components) =
     (let next_inode = find_inode_in_directory s current_inode component
      in if next_inode = -1 then -1 else walk_components s next_inode components)"

definition find_inode :: "FileSystem \<Rightarrow> string \<Rightarrow> int" where
  "find_inode s path =
     (if path = ''/'' then 0
      else case parse_path path of
        None \<Rightarrow> -1
      | Some components \<Rightarrow> walk_components s 0 components)"

definition file_exists :: "FileSystem \<Rightarrow> string \<Rightarrow> bool" where
  "file_exists s path = (find_inode s path \<noteq> -1)"

subsection \<open>Path normalisation (\<^verbatim>\<open>src/utils/path_utils.cpp\<close>)\<close>

text \<open>
  \<^verbatim>\<open>PathUtils::normalize_path\<close> works on a \<^verbatim>\<open>std::string\<close>, a sequence of bytes:
  \<^verbatim>\<open>std::replace\<close> turns every backslash into a slash, \<^verbatim>\<open>std::unique\<close> with the
  predicate \<^verbatim>\<open>a == '/' && b == '/'\<close> drops a slash that follows a kept slash, and one
  trailing slash is popped when the string is longer than one character.
\<close>

definition replace_backslash :: "string \<Rightarrow> string" where
  "replace_backslash s = map (\<lambda>c. if c = CHR 0x5C then CHR ''/'' else c) s"

text \<open>\<^verbatim>\<open>std::unique\<close> compares the last kept element with the next one.\<close>

fun unique_slash :: "string \<Rightarrow> string" where
  "unique_slash [] = []"
| "unique_slash [c] = [c]"
| "unique_slash (a # b # cs) =
     (if a = CHR ''/'' \<and> b = CHR ''/'' then unique_slash (a # cs)
      else a # unique_slash (b # cs))"

definition normalize_path :: "string \<Rightarrow> string" where
  "normalize_path path =
     (if path = [] then []
      else let normalized = unique_slash (replace_backslash path)
           in if length normalized > 1 \<and> last normalized = CHR ''/''
              then butlast normalized else normalized)"

text \<open>A proof device: no two neighbouring characters are both slashes.\<close>

fun no_double_slash :: "string \<Rightarrow> bool" where
  "no_double_slash (a # b # cs) =
     (\<not> (a = CHR ''/'' \<and> b = CHR ''/'') \<and> no_double_slash (b # cs))"
| "no_double_slash _ = True"

subsection \<open>The open-file table (\<^verbatim>\<open>src/core/file_manager.cpp\<close>)\<close>

text \<open>
  The \<^verbatim>\<open>while\<close> loop of \<^verbatim>\<open>allocate_file_descriptor()\<close> steps \<open>next_fd\<close> past the ids in
  use and wraps from 1024 to 3. It need not end: \<open>None\<close> stands for a loop that runs forever.
\<close>

partial_function (option) skip_used_fds :: "(int \<rightharpoonup> FileDescriptor) \<Rightarrow> int \<Rightarrow> int option" where
  "skip_used_fds fds nfd =
     (if fds nfd \<noteq> None
      then skip_used_fds fds (if nfd + 1 > 1024 then 3 else nfd + 1)
      else Some nfd)"

text \<open>\<^verbatim>\<open>return next_fd++\<close>: the id found is returned and \<open>next_fd\<close> is left one above it.\<close>

definition allocate_file_descriptor0 :: "FileSystem \<Rightarrow> (int \<times> FileSystem) option" where
  "allocate_file_descriptor0 s =
     (case skip_used_fds (file_descriptors s) (next_fd s) of
        None \<Rightarrow> None
      | Some nfd \<Rightarrow> Some (nfd, s\<lparr>next_fd := nfd + 1\<rparr>))"

text \<open>\<^verbatim>\<open>allocate_file_descriptor(inode_num, mode, fd)\<close>; the inner \<open>None\<close> is \<^verbatim>\<open>false\<close>.\<close>

definition allocate_file_descriptor ::
  "FileSystem \<Rightarrow> int \<Rightarrow> int \<Rightarrow> (int option \<times> FileSystem) option" where
  "allocate_file_descriptor s inode_n md =
     (case allocate_file_descriptor0 s of
        None \<Rightarrow> None
      | Some (fd, s1) \<Rightarrow>
          if fd = -1 then Some (None, s1)
          else Some (Some fd,
                 s1\<lparr>file_descriptors := (file_descriptors s1)
                       (fd \<mapsto> \<lparr>inode_num = inode_n, fd_mode = md, position = 0, fd_open = True\<rparr>)\<rparr>))"

definition get_file_descriptor :: "FileSystem \<Rightarrow> int \<Rightarrow> FileDescriptor option" where
  "get_file_descriptor s fd =
     (case file_descriptors s fd of
        None \<Rightarrow> None
      | Some desc \<Rightarrow> if \<not> fd_open desc then None else Some desc)"

definition free_file_descriptor :: "FileSystem \<Rightarrow> int \<Rightarrow> FileSystem" where
  "free_file_descriptor s fd =
     (case file_descriptors s fd of
        None \<Rightarrow> s
      | Some desc \<Rightarrow> s\<lparr>file_descriptors := (file_descriptors s)(fd := None)\<rparr>)"

text \<open>The table of a new \<^verbatim>\<open>FileSystem\<close> object is empty and \<open>next_fd\<close> is 3. The descriptors
  handed out by \<open>k\<close> successive allocations from a state, none of them released:\<close>

fun allocate_many :: "nat \<Rightarrow> FileSystem \<Rightarrow> (int list \<times> FileSystem) option" where
  "allocate_many 0 s = Some ([], s)"
| "allocate_many (Suc k) s =
     (case allocate_file_descriptor s 0 OPEN_MODE_READ of
        None \<Rightarrow> None
      | Some (None, s1) \<Rightarrow> None
      | Some (Some fd, s1) \<Rightarrow>
          (case allocate_many k s1 of
             None \<Rightarrow> None
           | Some (fds, s2) \<Rightarrow> Some (fd # fds, s2)))"

text \<open>No id from \<open>next_fd\<close> upwards is in the table.\<close>

definition fd_below :: "FileSystem \<Rightarrow> bool" where
  "fd_below s = (\<forall>k. k \<ge> next_fd s \<longrightarrow> file_descriptors s k = None)"

subsection \<open>Files (\<^verbatim>\<open>src/core/file_manager.cpp\<close>, \<^verbatim>\<open>src/utils/file_operations_utils.cpp\<close>)\<close>

text \<open>
  The loop of \<^verbatim>\<open>read_data_from_blocks\<close>: \<open>blocks\<close> is the list from index \<open>i\<close> on,
  \<open>acc\<close> the bytes copied so far and \<open>remaining\<close> is \<open>size - bytes_read\<close>. The loop ends at
  the end of the list or when nothing remains. The division of C truncates (\<open>sdiv\<close>,
  \<open>smod\<close>); a negative offset would index before the vector in the source.
\<close>

fun read_blocks_loop ::
  "DiskSimulator \<Rightarrow> int list \<Rightarrow> nat \<Rightarrow> byte list \<Rightarrow> int \<Rightarrow> (byte list \<times> int) option" where
  "read_blocks_loop d [] start_offset acc remaining = Some (acc, remaining)"
| "read_blocks_loop d (block_n # blocks) start_offset acc remaining =
     (if \<not> 0 < remaining then Some (acc, remaining)
      else case read_block d block_n of
        None \<Rightarrow> None
      | Some block_buffer \<Rightarrow>
          (let copy_size = min (int BLOCK_SIZE - int start_offset) remaining
           in read_blocks_loop d blocks 0
                (acc @ take (nat copy_size) (drop start_offset block_buffer))
                (remaining - copy_size)))"

definition read_data_from_blocks ::
  "DiskSimulator \<Rightarrow> int list \<Rightarrow> int \<Rightarrow> int \<Rightarrow> byte list option" where
  "read_data_from_blocks d blocks offset sz =
     (if blocks = [] then None
      else case read_blocks_loop d (drop (nat (offset sdiv int BLOCK_SIZE)) blocks)
                  (nat (offset smod int BLOCK_SIZE)) [] sz of
        None \<Rightarrow> None
      | Some (acc, remaining) \<Rightarrow> if remaining = 0 then Some acc else None)"

text \<open>
  The loop of \<^verbatim>\<open>write_data_to_blocks\<close>: \<open>buffer\<close> is what is left of the caller's buffer.
  A block that is not written whole is read first; a block written whole starts from
  zeros. Blocks written before a failure stay written.
\<close>

fun write_blocks_loop ::
  "DiskSimulator \<Rightarrow> int list \<Rightarrow> nat \<Rightarrow> byte list \<Rightarrow> int \<Rightarrow> int option \<times> DiskSimulator"
  where
  "write_blocks_loop d [] start_offset buffer remaining = (Some remaining, d)"
| "write_blocks_loop d (block_n # blocks) start_offset buffer remaining =
     (if \<not> 0 < remaining then (Some remaining, d)
      else case (if start_offset > 0 \<or> remaining < int BLOCK_SIZE
                 then read_block d block_n else Some create_block_buffer) of
        None \<Rightarrow> (None, d)
      | Some block_buffer \<Rightarrow>
          (let copy_size = min (int BLOCK_SIZE - int start_offset) remaining
           in case write_block d block_n
                     (memcpy block_buffer start_offset buffer (nat copy_size)) of
                None \<Rightarrow> (None, d)
              | Some d' \<Rightarrow>
                  write_blocks_loop d' blocks 0 (drop (nat copy_size) buffer)
                    (remaining - copy_size)))"

definition write_data_to_blocks ::
  "DiskSimulator \<Rightarrow> int list \<Rightarrow> int \<Rightarrow> byte list \<Rightarrow> int \<Rightarrow> bool \<times> DiskSimulator" where
  "write_data_to_blocks d blocks offset buffer sz =
     (if blocks = [] then (False, d)
      else case write_blocks_loop d (drop (nat (offset sdiv int BLOCK_SIZE)) blocks)
                  (nat (offset smod int BLOCK_SIZE)) buffer sz of
        (None, d') \<Rightarrow> (False, d')
      | (Some remaining, d') \<Rightarrow> (remaining = 0, d'))"

definition update_file_access_time :: "FileSystem \<Rightarrow> 64 word \<Rightarrow> int \<Rightarrow> FileSystem" where
  "update_file_access_time s now inode_n =
     (case read_inode s inode_n of
        None \<Rightarrow> s
      | Some inode \<Rightarrow>
          (case write_inode s inode_n (inode\<lparr>access_time := now\<rparr>) of
             None \<Rightarrow> s | Some s' \<Rightarrow> s'))"

definition update_file_modification_time :: "FileSystem \<Rightarrow> 64 word \<Rightarrow> int \<Rightarrow> FileSystem" where
  "update_file_modification_time s now inode_n =
     (case read_inode s inode_n of
        None \<Rightarrow> s
      | Some inode \<Rightarrow>
          (case write_inode s inode_n (inode\<lparr>modification_time := now\<rparr>) of
             None \<Rightarrow> s | Some s' \<Rightarrow> s'))"

text \<open>
  The results of the operations below pair the state they leave with either the error
  code the operation logs when it gives up (the source returns \<^verbatim>\<open>-1\<close> or \<^verbatim>\<open>false\<close>) or the
  value it returns.
\<close>

definition allocate_file_inode :: "FileSystem \<Rightarrow> 64 word \<Rightarrow> (ErrorCode + int) \<times> FileSystem" where
  "allocate_file_inode s now =
     (case allocate_inode s now of
        (None, s1) \<Rightarrow> (Inl ERROR_NO_FREE_INODES, s1)
      | (Some new_inode, s1) \<Rightarrow>
          (case write_inode s1 new_inode
                  (fou_initialize_new_inode now
                     (FILE_TYPE_REGULAR OR FILE_PERMISSION_READ OR FILE_PERMISSION_WRITE) 1) of
             None \<Rightarrow> (Inl ERROR_IO_ERROR, snd (free_inode s1 new_inode))
           | Some s2 \<Rightarrow> (Inr new_inode, s2)))"

text \<open>\<^verbatim>\<open>FileManager::create_file\<close>; \<^verbatim>\<open>FileSystem::create_file\<close> runs the same steps on the
  normalised path.\<close>

definition fm_create_file ::
  "FileSystem \<Rightarrow> 64 word \<Rightarrow> string \<Rightarrow> int \<Rightarrow> (ErrorCode + int) \<times> FileSystem" where
  "fm_create_file s now path md =
     (if file_exists s path then (Inl ERROR_FILE_ALREADY_EXISTS, s)
      else case validate_and_parse_path path of
        None \<Rightarrow> (Inl ERROR_INVALID_PATH, s)
      | Some (filename, directory) \<Rightarrow>
          (let parent_inode = find_inode s directory in
           if parent_inode = -1 then (Inl ERROR_FILE_NOT_FOUND, s)
           else case allocate_file_inode s now of
             (Inl e, s1) \<Rightarrow> (Inl e, s1)
           | (Inr new_inode, s1) \<Rightarrow>
               (case read_inode s1 new_inode of
                  None \<Rightarrow> (Inl ERROR_IO_ERROR, snd (free_inode s1 new_inode))
                | Some inode \<Rightarrow>
                    (case write_inode s1 new_inode
                            (inode\<lparr>mode := word_of_int (FILE_TYPE_REGULAR OR md)\<rparr>) of
                       None \<Rightarrow> (Inl ERROR_IO_ERROR, snd (free_inode s1 new_inode))
                     | Some s2 \<Rightarrow>
                         (case add_directory_entry s2 parent_inode filename new_inode now of
                            (False, s3) \<Rightarrow> (Inl ERROR_IO_ERROR, snd (free_inode s3 new_inode))
                          | (True, s3) \<Rightarrow> (Inr new_inode, s3))))))"

text \<open>\<^verbatim>\<open>FileManager::open_file\<close>. The outer \<open>None\<close>: the descriptor search does not end.\<close>

definition fm_open_file ::
  "FileSystem \<Rightarrow> 64 word \<Rightarrow> string \<Rightarrow> int \<Rightarrow> ((ErrorCode + int) \<times> FileSystem) option" where
  "fm_open_file s now path md =
     (case (if find_inode s path = -1
            then (if md AND OPEN_MODE_CREATE \<noteq> 0
                  then fm_create_file s now path (FILE_PERMISSION_READ OR FILE_PERMISSION_WRITE)
                  else (Inl ERROR_FILE_NOT_FOUND, s))
            else (Inr (find_inode s path), s)) of
        (Inl e, s1) \<Rightarrow> Some (Inl e, s1)
      | (Inr inode_n, s1) \<Rightarrow>
          (case allocate_file_descriptor s1 inode_n md of
             None \<Rightarrow> None
           | Some (None, s2) \<Rightarrow> Some (Inl ERROR_INVALID_FILE_DESCRIPTOR, s2)
           | Some (Some fd, s2) \<Rightarrow>
               (if md AND OPEN_MODE_APPEND \<noteq> 0
                then (case read_inode s2 inode_n of
                        None \<Rightarrow> Some (Inl ERROR_IO_ERROR, free_file_descriptor s2 fd)
                      | Some inode \<Rightarrow>
                          Some (Inr fd,
                            update_file_access_time
                              (s2\<lparr>file_descriptors := (file_descriptors s2)
                                    (fd \<mapsto> \<lparr>inode_num = inode_n, fd_mode = md,
                                           position = sint (size_i inode), fd_open = True\<rparr>)\<rparr>)
                              now inode_n))
                else Some (Inr fd, update_file_access_time s2 now inode_n))))"

definition fm_close_file :: "FileSystem \<Rightarrow> 64 word \<Rightarrow> int \<Rightarrow> (ErrorCode + unit) \<times> FileSystem" where
  "fm_close_file s now fd =
     (case file_descriptors s fd of
        None \<Rightarrow> (Inl ERROR_INVALID_FILE_DESCRIPTOR, s)
      | Some desc \<Rightarrow>
          (Inr (), free_file_descriptor (update_file_modification_time s now (inode_num desc)) fd))"

text \<open>\<^verbatim>\<open>FileManager::read_file\<close>: the value returned and the bytes copied to the caller's
  buffer.\<close>

definition fm_read_file ::
  "FileSystem \<Rightarrow> 64 word \<Rightarrow> int \<Rightarrow> int \<Rightarrow> (ErrorCode + int \<times> byte list) \<times> FileSystem" where
  "fm_read_file s now fd sz =
     (case get_file_descriptor s fd of
        None \<Rightarrow> (Inl ERROR_INVALID_FILE_DESCRIPTOR, s)
      | Some desc \<Rightarrow>
          if fd_mode desc AND OPEN_MODE_READ = 0 then (Inl ERROR_INVALID_ARGUMENT, s)
          else case read_inode s (inode_num desc) of
            None \<Rightarrow> (Inl ERROR_IO_ERROR, s)
          | Some inode \<Rightarrow>
              if position desc \<ge> sint (size_i inode) then (Inr (0, []), s)
              else
                (let bytes_to_read = min sz (sint (size_i inode) - position desc) in
                 case get_data_blocks s (inode_num desc) of
                   None \<Rightarrow> (Inl ERROR_IO_ERROR, s)
                 | Some blocks \<Rightarrow>
                     (case read_data_from_blocks (disk s) blocks (position desc) bytes_to_read of
                        None \<Rightarrow> (Inl ERROR_IO_ERROR, s)
                      | Some data \<Rightarrow>
                          (Inr (bytes_to_read, data),
                           update_file_access_time
                             (s\<lparr>file_descriptors := (file_descriptors s)
                                   (fd \<mapsto> desc\<lparr>position := position desc + bytes_to_read\<rparr>)\<rparr>)
                             now (inode_num desc)))))"

definition fm_write_file ::
  "FileSystem \<Rightarrow> 64 word \<Rightarrow> int \<Rightarrow> byte list \<Rightarrow> int \<Rightarrow> (ErrorCode + int) \<times> FileSystem" where
  "fm_write_file s now fd buffer sz =
     (case get_file_descriptor s fd of
        None \<Rightarrow> (Inl ERROR_INVALID_FILE_DESCRIPTOR, s)
      | Some desc \<Rightarrow>
          if fd_mode desc AND OPEN_MODE_WRITE = 0 then (Inl ERROR_INVALID_ARGUMENT, s)
          else case read_inode s (inode_num desc) of
            None \<Rightarrow> (Inl ERROR_IO_ERROR, s)
          | Some inode0 \<Rightarrow>
              (let current_blocks =
                     int32 (int32 (sint (size_i inode0) + int BLOCK_SIZE) - 1) sdiv int BLOCK_SIZE;
                   required_blocks =
                     int32 (int32 (int32 (position desc + sz) + int BLOCK_SIZE) - 1)
                       sdiv int BLOCK_SIZE;
                   additional_blocks = int32 (required_blocks - current_blocks)
               in case (if additional_blocks > 0
                        then (case allocate_data_blocks s (inode_num desc) additional_blocks now of
                                (None, s1) \<Rightarrow> (Inl ERROR_NO_FREE_BLOCKS, s1)
                              | (Some new_blocks, s1) \<Rightarrow>
                                  (case read_inode s1 (inode_num desc) of
                                     None \<Rightarrow> (Inl ERROR_IO_ERROR, s1)
                                   | Some inode1 \<Rightarrow> (Inr inode1, s1)))
                        else (Inr inode0, s)) of
                    (Inl e, s1) \<Rightarrow> (Inl e, s1)
                  | (Inr inode, s1) \<Rightarrow>
                      (case get_data_blocks s1 (inode_num desc) of
                         None \<Rightarrow> (Inl ERROR_IO_ERROR, s1)
                       | Some blocks \<Rightarrow>
                           (case write_data_to_blocks (disk s1) blocks (position desc) buffer sz of
                              (False, d') \<Rightarrow> (Inl ERROR_IO_ERROR, s1\<lparr>disk := d'\<rparr>)
                            | (True, d') \<Rightarrow>
                                (case write_inode (s1\<lparr>disk := d'\<rparr>) (inode_num desc)
                                        (inode\<lparr>size_i := word_of_int
                                                   (max (sint (size_i inode))
                                                        (int32 (position desc + sz))),
                                               modification_time := now\<rparr>) of
                                   None \<Rightarrow> (Inl ERROR_IO_ERROR, s1\<lparr>disk := d'\<rparr>)
                                 | Some s2 \<Rightarrow>
                                     (Inr sz,
                                      s2\<lparr>file_descriptors := (file_descriptors s2)
                                            (fd \<mapsto> desc\<lparr>position :=
                                                         int32 (position desc + sz)\<rparr>)\<rparr>))))))"

definition fm_seek_file :: "FileSystem \<Rightarrow> int \<Rightarrow> int \<Rightarrow> (ErrorCode + unit) \<times> FileSystem" where
  "fm_seek_file s fd pos =
     (case get_file_descriptor s fd of
        None \<Rightarrow> (Inl ERROR_INVALID_FILE_DESCRIPTOR, s)
      | Some desc \<Rightarrow>
          (case read_inode s (inode_num desc) of
             None \<Rightarrow> (Inl ERROR_IO_ERROR, s)
           | Some inode \<Rightarrow>
               if pos < 0 \<or> pos > sint (size_i inode) then (Inl ERROR_INVALID_ARGUMENT, s)
               else (Inr (),
                     s\<lparr>file_descriptors := (file_descriptors s)
                          (fd \<mapsto> desc\<lparr>position := pos\<rparr>)\<rparr>)))"

subsection \<open>The facade (\<^verbatim>\<open>src/core/filesystem.cpp\<close>)\<close>

text \<open>Every operation checks \<open>mounted\<close> first; paths are normalised.\<close>

definition create_file ::
  "FileSystem \<Rightarrow> 64 word \<Rightarrow> string \<Rightarrow> int \<Rightarrow> (ErrorCode + int) \<times> FileSystem" where
  "create_file s now path md =
     (if \<not> mounted s then (Inl ERROR_NOT_MOUNTED, s)
      else fm_create_file s now (normalize_path path) md)"

definition open_file ::
  "FileSystem \<Rightarrow> 64 word \<Rightarrow> string \<Rightarrow> int \<Rightarrow> ((ErrorCode + int) \<times> FileSystem) option" where
  "open_file s now path md =
     (if \<not> mounted s then Some (Inl ERROR_NOT_MOUNTED, s)
      else fm_open_file s now (normalize_path path) md)"

definition close_file :: "FileSystem \<Rightarrow> 64 word \<Rightarrow> int \<Rightarrow> (ErrorCode + unit) \<times> FileSystem" where
  "close_file s now fd =
     (if \<not> mounted s then (Inl ERROR_NOT_MOUNTED, s) else fm_close_file s now fd)"

definition read_file ::
  "FileSystem \<Rightarrow> 64 word \<Rightarrow> int \<Rightarrow> int \<Rightarrow> (ErrorCode + int \<times> byte list) \<times> FileSystem" where
  "read_file s now fd sz =
     (if \<not> mounted s then (Inl ERROR_NOT_MOUNTED, s) else fm_read_file s now fd sz)"

definition write_file ::
  "FileSystem \<Rightarrow> 64 word \<Rightarrow> int \<Rightarrow> byte list \<Rightarrow> int \<Rightarrow> (ErrorCode + int) \<times> FileSystem" where
  "write_file s now fd buffer sz =
     (if \<not> mounted s then (Inl ERROR_NOT_MOUNTED, s) else fm_write_file s now fd buffer sz)"

definition seek_file :: "FileSystem \<Rightarrow> int \<Rightarrow> int \<Rightarrow> (ErrorCode + unit) \<times> FileSystem" where
  "seek_file s fd pos =
     (if \<not> mounted s then (Inl ERROR_NOT_MOUNTED, s) else fm_seek_file s fd pos)"

subsection \<open>Mounting (\<^verbatim>\<open>src/core/filesystem.cpp\<close>)\<close>

definition load_superblock :: "FileSystem \<Rightarrow> (ErrorCode + unit) \<times> FileSystem" where
  "load_superblock s =
     (case read_block (disk s) 0 of
        None \<Rightarrow> (Inl ERROR_IO_ERROR, s)
      | Some buffer \<Rightarrow>
          (let s1 = s\<lparr>superblock := decode_superblock buffer\<rparr> in
           if magic_number (superblock s1) \<noteq> MAGIC_NUMBER then (Inl ERROR_INVALID_ARGUMENT, s1)
           else (Inr (), s1\<lparr>layout := calculate_layout (disk s1)\<rparr>)))"

definition dot_entry :: "string \<Rightarrow> int \<Rightarrow> DirectoryEntry" where
  "dot_entry nm inode_n =
     \<lparr>inode_number = word_of_int inode_n,
      name = strncpy_name (c_str nm) (MAX_FILENAME_LENGTH - 1),
      name_length = word_of_int (int (length nm))\<rparr>"

text \<open>The loop of \<^verbatim>\<open>ensure_root_directory\<close> over the entries read: the entries with
  \<open>.\<close> and \<open>..\<close> pointed at the root, and whether each was seen and whether one changed.\<close>

definition is_dot :: "DirectoryEntry \<Rightarrow> bool" where
  "is_dot e = (sint (name_length e) = 1 \<and> strncmp_eq (name e) (c_str ''.'') 1)"

definition is_dotdot :: "DirectoryEntry \<Rightarrow> bool" where
  "is_dotdot e =
     (\<not> is_dot e \<and> sint (name_length e) = 2 \<and> strncmp_eq (name e) (c_str ''..'') 2)"

definition repoint :: "DirectoryEntry \<Rightarrow> DirectoryEntry" where
  "repoint e =
     (if (is_dot e \<or> is_dotdot e) \<and> sint (inode_number e) \<noteq> 0
      then e\<lparr>inode_number := 0\<rparr> else e)"

text \<open>The root inode as \<^verbatim>\<open>ensure_root_directory\<close> wants it, and whether it was changed.\<close>

definition fix_root_inode :: "Inode \<Rightarrow> 64 word \<Rightarrow> Inode \<times> bool" where
  "fix_root_inode root_inode now =
     (let directory_mode = FILE_TYPE_DIRECTORY OR FILE_PERMISSION_READ OR
                           FILE_PERMISSION_WRITE OR FILE_PERMISSION_EXECUTE;
          required_permissions =
            (word_of_int (FILE_PERMISSION_READ OR FILE_PERMISSION_WRITE OR
                          FILE_PERMISSION_EXECUTE) :: 32 word)
      in if mode root_inode AND word_of_int FILE_TYPE_DIRECTORY = 0
         then (fou_initialize_new_inode now directory_mode 2, True)
         else
           (let r1 = (if mode root_inode AND required_permissions \<noteq> required_permissions
                      then (root_inode\<lparr>mode := mode root_inode OR required_permissions\<rparr>, True)
                      else (root_inode, False))
            in if sint (link_count (fst r1)) < 2
               then ((fst r1)\<lparr>link_count := 2\<rparr>, True) else r1))"

definition ensure_root_directory :: "FileSystem \<Rightarrow> 64 word \<Rightarrow> bool \<times> FileSystem" where
  "ensure_root_directory s now =
     (case (if \<not> is_inode_allocated s 0
            then (case allocate_inode s now of
                    (None, s1) \<Rightarrow> (False, s1)
                  | (Some allocated_inode, s1) \<Rightarrow> (allocated_inode = 0, s1))
            else (True, s)) of
        (False, s1) \<Rightarrow> (False, s1)
      | (True, s1) \<Rightarrow>
          (case read_inode s1 0 of
             None \<Rightarrow> (False, s1)
           | Some root_inode \<Rightarrow>
               (case (if snd (fix_root_inode root_inode now)
                      then write_inode s1 0 (fst (fix_root_inode root_inode now))
                      else Some s1) of
                  None \<Rightarrow> (False, s1)
                | Some s2 \<Rightarrow>
                    (let read_result = read_directory s2 0;
                         entries0 = (case read_result of None \<Rightarrow> [] | Some es \<Rightarrow> es);
                         entries1 = map repoint entries0;
                         has_dot = (\<exists>e \<in> set entries0. is_dot e);
                         has_dotdot = (\<exists>e \<in> set entries0. is_dotdot e);
                         entries2 = (if has_dot then entries1 else dot_entry ''.'' 0 # entries1);
                         entries3 = (if has_dotdot then entries2
                                     else hd entries2 # dot_entry ''..'' 0 # tl entries2);
                         needs_write = (read_result = None \<or> entries1 \<noteq> entries0 \<or>
                                        \<not> has_dot \<or> \<not> has_dotdot)
                     in if \<not> needs_write then (True, s2)
                        else case get_data_blocks s2 0 of
                          None \<Rightarrow> (False, s2)
                        | Some blocks \<Rightarrow>
                            (case (if blocks = []
                                   then (case allocate_data_blocks s2 0 1 now of
                                           (None, s3) \<Rightarrow> (False, s3)
                                         | (Some new_blocks, s3) \<Rightarrow> (True, s3))
                                   else (True, s2)) of
                               (False, s3) \<Rightarrow> (False, s3)
                             | (True, s3) \<Rightarrow> write_directory s3 0 entries3 now)))))"

definition initialize_after_open :: "FileSystem \<Rightarrow> 64 word \<Rightarrow> (ErrorCode + unit) \<times> FileSystem" where
  "initialize_after_open s now =
     (case load_superblock s of
        (Inl e, s1) \<Rightarrow> (Inl e, s1)
      | (Inr u, s1) \<Rightarrow>
          (case initialize s1 (layout s1) of
             (False, s2) \<Rightarrow> (Inl ERROR_IO_ERROR, s2)
           | (True, s2) \<Rightarrow>
               (case ensure_root_directory s2 now of
                  (False, s3) \<Rightarrow> (Inl ERROR_IO_ERROR, s3)
                | (True, s3) \<Rightarrow> (Inr (), s3))))"

text \<open>\<^verbatim>\<open>FileSystem::mount\<close>; \<open>file\<close> is what opening the image path on the host yields.\<close>

definition mount :: "FileSystem \<Rightarrow> 64 word \<Rightarrow> HostFile option \<Rightarrow> (ErrorCode + unit) \<times> FileSystem" where
  "mount s now file =
     (if mounted s then (Inl ERROR_INVALID_ARGUMENT, s)
      else case open_disk (disk s) file of
        (False, d1) \<Rightarrow>
          (Inl (if disk_open (disk s) then ERROR_FILE_ALREADY_OPEN else ERROR_IO_ERROR),
           s\<lparr>disk := d1\<rparr>)
      | (True, d1) \<Rightarrow>
          (case initialize_after_open (s\<lparr>disk := d1\<rparr>) now of
             (Inl e, s1) \<Rightarrow> (Inl e, s1\<lparr>disk := close_disk (disk s1)\<rparr>)
           | (Inr u, s1) \<Rightarrow> (Inr (), s1\<lparr>mounted := True\<rparr>)))"

definition is_mounted :: "FileSystem \<Rightarrow> bool" where
  "is_mounted s = mounted s"

text \<open>The first four bytes of an image file, read as the \<^verbatim>\<open>uint32_t\<close> at the start of the
  superblock.\<close>

definition image_magic :: "HostFile \<Rightarrow> 32 word" where
  "image_magic f = rd32 (map (file_bytes f) [0..<4]) 0"

subsection \<open>The bytes of a file\<close>

text \<open>The bytes held by a list of blocks, in the order of the list; they state what a
  read returns.\<close>

definition block_bytes :: "DiskSimulator \<Rightarrow> int \<Rightarrow> byte list" where
  "block_bytes d b = (case read_block d b of None \<Rightarrow> [] | Some buffer \<Rightarrow> buffer)"

definition blocks_content :: "DiskSimulator \<Rightarrow> int list \<Rightarrow> byte list" where
  "blocks_content d blocks = concat (map (block_bytes d) blocks)"

subsection \<open>An example image\<close>

text \<open>
  A device of 64 blocks whose block 0 starts with the magic number, whose block 5 starts
  with the ten bytes \<open>ABCDEFGHIJ\<close> and whose other bytes are zero; its layout; and the state of a
  file system whose inode manager was initialised on it, before the root directory exists.
  They instantiate the theorems below.
\<close>

definition example_image :: HostFile where
  "example_image =
     \<lparr>file_size = 262144,
      file_bytes = (\<lambda>a. if a = 0 then 0x44 else if a = 1 then 0x4E else if a = 2 then 0x49
                         else if a = 3 then 0x4D
                         else if 20480 \<le> a \<and> a < 20490 then of_nat (a - 20415) else 0)\<rparr>"

definition example_disk :: DiskSimulator where
  "example_disk = snd (open_disk new_DiskSimulator (Some example_image))"

definition example_layout :: DiskLayout where
  "example_layout =
     \<lparr>superblock_start = 0, superblock_blocks = 1, inode_bitmap_start = 2,
      inode_bitmap_blocks = 1, data_bitmap_start = 3, data_bitmap_blocks = 1,
      inode_table_start = 1, inode_table_blocks = 1, data_blocks_start = 4,
      data_blocks_count = 60\<rparr>"

definition blank_fs :: FileSystem where
  "blank_fs =
     \<lparr>disk = example_disk,
      superblock = decode_superblock (replicate BLOCK_SIZE 0),
      inode_manager =
        \<lparr>im_layout = example_layout,
         inode_bitmap = new_BitmapManager 42, data_bitmap = new_BitmapManager 60,
         initialized = True\<rparr>,
      layout = example_layout,
      mounted = True, file_descriptors = Map.empty, next_fd = 3\<rparr>"

text \<open>An open file on the example image: inode 5 holds a file of ten bytes in block 5
  and descriptor 3 is open on it for reading and writing, at position 4.\<close>

definition example_inode :: Inode where
  "example_inode =
     (initialize_new_inode 7)\<lparr>size_i := 10, direct_blocks := 5 # replicate 9 0\<rparr>"

definition example_fd :: FileDescriptor where
  "example_fd = \<lparr>inode_num = 5, fd_mode = OPEN_MODE_READ OR OPEN_MODE_WRITE, position = 4, fd_open = True\<rparr>"

definition open_fs :: FileSystem where
  "open_fs =
     (case write_inode blank_fs 5 example_inode of
        None \<Rightarrow> blank_fs
      | Some s \<Rightarrow> s\<lparr>file_descriptors := [3 \<mapsto> example_fd], next_fd := 4\<rparr>)"

text \<open>An image of 64 zeroed blocks: no magic number.\<close>

definition zero_image :: HostFile where
  "zero_image = \<lparr>file_size = 262144, file_bytes = (\<lambda>a. 0)\<rparr>"

text \<open>A file, inode 5, whose data block 12 is reached through the double-indirect block 10
  and the indirect block 11, the three blocks taken in the data bitmap (bits 6, 7 and 8) and
  inodes 0 and 5 taken in the inode bitmap.\<close>

definition leak_inode :: Inode where
  "leak_inode = (initialize_new_inode 7)\<lparr>size_i := 4096, double_indirect_block := 10\<rparr>"

definition leak_inodes :: BitmapManager where
  "leak_inodes =
     (new_BitmapManager 42)\<lparr>bitmap_data := [0x21, 0, 0, 0, 0, 0], free_bits_count := 40\<rparr>"

definition leak_bitmap :: BitmapManager where
  "leak_bitmap =
     (new_BitmapManager 60)\<lparr>bitmap_data := [0xC0, 0x01, 0, 0, 0, 0, 0, 0], free_bits_count := 57\<rparr>"

definition leak_fs :: FileSystem where
  "leak_fs =
     (case write_indirect_block example_disk 10 [11] of
        None \<Rightarrow> blank_fs
      | Some d1 \<Rightarrow>
          (case write_indirect_block d1 11 [12] of
             None \<Rightarrow> blank_fs
           | Some d2 \<Rightarrow>
               (case write_inode
                       (blank_fs\<lparr>disk := d2,
                                 inode_manager := (inode_manager blank_fs)\<lparr>inode_bitmap := leak_inodes, data_bitmap := leak_bitmap\<rparr>\<rparr>)
                       5 leak_inode of
                  None \<Rightarrow> blank_fs
                | Some s \<Rightarrow> s)))"




text \<open>A new, empty file as \<^verbatim>\<open>create_file\<close> and \<^verbatim>\<open>open_file\<close> leave it: inode 1, taken in the
  inode bitmap next to the root, initialised as a regular file of size 0 without blocks, and
  descriptor 3 open on it for reading and writing at position 0.\<close>

definition two_inodes :: BitmapManager where
  "two_inodes =
     (new_BitmapManager 42)\<lparr>bitmap_data := [0x03, 0, 0, 0, 0, 0], free_bits_count := 40\<rparr>"

definition new_file_inode :: Inode where
  "new_file_inode =
     fou_initialize_new_inode 9
       (FILE_TYPE_REGULAR OR FILE_PERMISSION_READ OR FILE_PERMISSION_WRITE) 1"

definition new_file_fd :: FileDescriptor where
  "new_file_fd =
     \<lparr>inode_num = 1, fd_mode = OPEN_MODE_READ OR OPEN_MODE_WRITE, position = 0, fd_open = True\<rparr>"

definition new_file_fs :: FileSystem where
  "new_file_fs =
     (case write_inode
             (blank_fs\<lparr>inode_manager := (inode_manager blank_fs)\<lparr>inode_bitmap := two_inodes\<rparr>\<rparr>)
             1 new_file_inode of
        None \<Rightarrow> blank_fs
      | Some s \<Rightarrow> s\<lparr>file_descriptors := [3 \<mapsto> new_file_fd], next_fd := 4\<rparr>)"

section \<open>Properties\<close>

subsection \<open>Machine arithmetic\<close>

lemma int32_id: "- 2147483648 \<le> x \<Longrightarrow> x < 2147483648 \<Longrightarrow> int32 x = x"
  by (simp add: int32_def sint_sbintrunc' signed_take_bit_int_eq_self)

lemma sdiv_nonneg: "0 \<le> a \<Longrightarrow> 0 < b \<Longrightarrow> a sdiv b = a div (b::int)"
  by (simp add: signed_divide_int_def sgn_if)

lemma smod_nonneg: "0 \<le> a \<Longrightarrow> 0 < b \<Longrightarrow> a smod b = a mod (b::int)"
  by (simp add: signed_modulo_int_def sgn_if)

subsection \<open>The example image\<close>

lemma example_disk_simps [simp]:
  "disk_open example_disk" "total_blocks example_disk = 64"
  by (simp_all add: example_disk_def open_disk_def new_DiskSimulator_def example_image_def
      sdiv_nonneg int32_id)

lemma example_layout_eq: "calculate_layout example_disk = example_layout"
  by (simp add: calculate_layout_def example_layout_def Let_def sdiv_nonneg int32_id)

lemma ready_example [simp]: "is_ready_for_io example_disk n = (0 \<le> n \<and> n < 64)"
  by (auto simp: is_ready_for_io_def)

lemma blank_simps [simp]:
  "disk blank_fs = example_disk"
  "inode_manager blank_fs = \<lparr>im_layout = example_layout,
         inode_bitmap = new_BitmapManager 42, data_bitmap = new_BitmapManager 60,
         initialized = True\<rparr>"
  by (simp_all add: blank_fs_def)


lemma write_block_ok: "is_ready_for_io d n \<Longrightarrow> \<exists>d'. write_block d n buf = Some d' \<and> disk_open d' = disk_open d \<and> total_blocks d' = total_blocks d"
  by (simp add: write_block_def)


subsection \<open>The bitmap\<close>

lemma bit_is_set_iff: "bit_is_set data n = bit (data ! nat (n div 8)) (nat (n mod 8))"
  by (simp add: bit_is_set_def and_exp_eq_0_iff_not_bit)




lemma filter_count_change:
  assumes "n < t" "\<And>m. m < t \<Longrightarrow> m \<noteq> n \<Longrightarrow> P' m = P m" "P n" "\<not> P' n"
  shows "length (filter P' [0..<t]) + 1 = length (filter P [0..<t])"
proof -
  have sp: "[0..<t] = [0..<n] @ [n] @ [Suc n..<t]"
    using assms(1) by (metis append_Cons append_Nil le_add1 le_add_same_cancel1 less_imp_add_positive upt_add_eq_append upt_conv_Cons)
  have a: "filter P' [0..<n] = filter P [0..<n]"
    using assms(1,2) by (intro filter_cong) auto
  have b: "filter P' [Suc n..<t] = filter P [Suc n..<t]"
    using assms(1,2) by (intro filter_cong) auto
  show ?thesis unfolding sp using a b assms(3,4) by simp
qed

lemma valid_byte_index:
  assumes "bitmap_wf b" "0 \<le> n" "n < total_bits b"
  shows "nat (n div 8) < length (bitmap_data b)"
proof -
  have "total_bits b > 0" using assms by arith
  then have "length (bitmap_data b) = nat ((total_bits b + 7) div 8)"
    using assms(1) by (simp add: bitmap_wf_def)
  moreover have "n div 8 < (total_bits b + 7) div 8" using assms(2,3) by arith
  ultimately show ?thesis using assms(2) by simp
qed

lemma bit_pos_eq:
  assumes "0 \<le> (m::int)" "0 \<le> n" "nat (m div 8) = nat (n div 8)" "nat (m mod 8) = nat (n mod 8)"
  shows "m = n"
proof -
  have "0 \<le> m div 8" "0 \<le> n div 8" using assms(1,2) by simp_all
  then have "m div 8 = n div 8" using assms(3) by (metis nat_0_le)
  moreover have "0 \<le> m mod 8" "0 \<le> n mod 8" by simp_all
  then have "m mod 8 = n mod 8" using assms(4) by (metis nat_0_le)
  ultimately show ?thesis by (metis mult_div_mod_eq)
qed


lemma clear_bit_effect:
  assumes "bitmap_wf b" "is_valid_bit b n" "is_valid_bit b m"
  shows "bit_is_set (bitmap_data (clear_bit b n)) m = (m \<noteq> n \<and> bit_is_set (bitmap_data b) m)"
proof -
  have nl: "nat (n div 8) < length (bitmap_data b)" and ml: "nat (m div 8) < length (bitmap_data b)"
    using assms valid_byte_index by (auto simp: is_valid_bit_def)
  have n8: "nat (n mod 8) < 8" "nat (m mod 8) < 8" by simp_all
  show ?thesis
  proof (cases "nat (m div 8) = nat (n div 8)")
    case False
    then have "m \<noteq> n" by auto
    with False nl ml assms(2) show ?thesis
      by (simp add: clear_bit_def bit_is_set_iff)
  next
    case True
    have pe: "(nat (m mod 8) = nat (n mod 8)) = (m = n)"
      using bit_pos_eq [of m n] True assms(2,3) by (auto simp: is_valid_bit_def)
    show ?thesis using True nl assms(2) pe n8
      by (auto simp add: clear_bit_def bit_is_set_iff bit_simps)
  qed
qed


lemma clear_bit_wf: "bitmap_wf b \<Longrightarrow> bitmap_wf (clear_bit b n)"
  by (simp add: bitmap_wf_def clear_bit_def)

lemma set_bit_bm_total [simp]: "total_bits (set_bit_bm b n) = total_bits b"
  by (simp add: set_bit_bm_def)

lemma clear_bit_total [simp]: "total_bits (clear_bit b n) = total_bits b"
  by (simp add: clear_bit_def)


lemma zero_bits_clear:
  assumes "bitmap_wf b" "is_valid_bit b n" "bit_is_set (bitmap_data b) n"
  shows "zero_bits (clear_bit b n) = zero_bits b + 1"
proof -
  let ?t = "nat (total_bits b)"
  have nt: "nat n < ?t" using assms(2) by (auto simp: is_valid_bit_def)
  have "length (filter (\<lambda>k. \<not> bit_is_set (bitmap_data b) (int k)) [0..<?t]) + 1
      = length (filter (\<lambda>k. \<not> bit_is_set (bitmap_data (clear_bit b n)) (int k)) [0..<?t])"
  proof (rule filter_count_change [OF nt])
    fix m assume "m < ?t" "m \<noteq> nat n"
    then have "is_valid_bit b (int m)" "int m \<noteq> n" using assms(2) by (auto simp: is_valid_bit_def)
    then show "(\<not> bit_is_set (bitmap_data b) (int m)) = (\<not> bit_is_set (bitmap_data (clear_bit b n)) (int m))"
      using clear_bit_effect [OF assms(1,2)] by simp
  next
    show "\<not> bit_is_set (bitmap_data (clear_bit b n)) (int (nat n))"
      using clear_bit_effect [OF assms(1,2,2)] assms(2) by (simp add: is_valid_bit_def)
  next
    show "\<not> \<not> bit_is_set (bitmap_data b) (int (nat n))" using assms(2,3) by (simp add: is_valid_bit_def)
  qed
  then show ?thesis by (simp add: zero_bits_def)
qed

lemma count_free_from_eq:
  "0 \<le> k \<Longrightarrow> count_free_from data t k acc =
     acc + int (length (filter (\<lambda>n. \<not> bit_is_set data (int n)) [nat k..<nat t]))"
proof (induction data t k acc rule: count_free_from.induct)
  case (1 data t k acc)
  note unf = count_free_from.simps [of data t k acc]
  show ?case
  proof (cases "k < t")
    case False
    have c: "count_free_from data t k acc = acc" using False by (subst unf) simp
    have "nat t \<le> nat k" using False by simp
    then have e: "[nat k..<nat t] = []" by simp
    show ?thesis unfolding c e by simp
  next
    case True
    have nk: "nat (k + 1) = Suc (nat k)" using "1.prems" by (simp add: nat_add_distrib)
    have lt: "nat k < nat t" using True "1.prems" by simp
    have sp: "[nat k..<nat t] = nat k # [nat (k + 1)..<nat t]"
      unfolding nk using lt by (rule upt_conv_Cons)
    have k1: "0 \<le> k + 1" using "1.prems" by simp
    have e: "count_free_from data t k acc = count_free_from data t (k + 1)
             (if \<not> bit_is_set data k then acc + 1 else acc)"
      using True by (subst unf) simp
    have ik: "int (nat k) = k" using "1.prems" by simp
    show ?thesis unfolding e "1.IH" [OF True k1] sp using "1.prems" by (simp add: ik)
  qed
qed

lemma recalculate_free_bits_inv:
  assumes "bitmap_wf b" "total_bits b \<ge> 0"
  shows "free_bits_count (recalculate_free_bits b) = zero_bits (recalculate_free_bits b)"
proof (cases "bitmap_size b = 0 \<or> total_bits b \<le> 0")
  case True
  then have "total_bits b = 0" using assms by (auto simp: bitmap_wf_def split: if_splits)
  then show ?thesis using True by (simp add: recalculate_free_bits_def zero_bits_def)
next
  case False
  have z: "(0::int) \<le> 0" by simp
  show ?thesis using False count_free_from_eq [OF z, of "bitmap_data b" "total_bits b" 0]
    by (simp add: recalculate_free_bits_def zero_bits_def)
qed

lemma read_block_length: "read_block d n = Some b \<Longrightarrow> length b = BLOCK_SIZE"
  by (auto simp: read_block_def split: if_splits)

lemma memcpy_length:
  "off + n \<le> length dest \<Longrightarrow> n \<le> length src \<Longrightarrow> length (memcpy dest off src n) = length dest"
  by (simp add: memcpy_def)

lemma filter_all_length:
  "(\<And>x. x \<in> set xs \<Longrightarrow> P x) \<Longrightarrow> length (filter P xs) = length xs"
  by (induction xs) auto

lemma zero_bits_all_clear:
  assumes "bitmap_wf b" "bitmap_data b = replicate (nat (bitmap_size b)) 0"
  shows "zero_bits b = int (nat (total_bits b))"
proof -
  have "\<And>n. n \<in> set [0..<nat (total_bits b)] \<Longrightarrow> \<not> bit_is_set (bitmap_data b) (int n)"
  proof -
    fix n assume "n \<in> set [0..<nat (total_bits b)]"
    then have v: "0 \<le> int n" "int n < total_bits b" by auto
    have "nat (int n div 8) < length (bitmap_data b)" by (rule valid_byte_index [OF assms(1) v])
    then have "nat (int n div 8) < nat (bitmap_size b)" using assms(1) by (simp add: bitmap_wf_def)
    then show "\<not> bit_is_set (bitmap_data b) (int n)"
      unfolding assms(2) by (simp add: bit_is_set_iff)
  qed
  then show ?thesis unfolding zero_bits_def by (simp add: filter_all_length)
qed


lemma clear_all_inv: "bitmap_inv b \<Longrightarrow> bitmap_inv (clear_all b)"
proof (cases "bitmap_check_initialized b")
  case False
  assume "bitmap_inv b"
  with False show ?thesis by (simp add: clear_all_def)
next
  case True
  assume inv: "bitmap_inv b"
  let ?c = "b\<lparr>bitmap_data := replicate (nat (bitmap_size b)) 0, free_bits_count := total_bits b\<rparr>"
  have wf: "bitmap_wf ?c" using inv by (simp add: bitmap_inv_def bitmap_wf_def)
  have "zero_bits ?c = int (nat (total_bits ?c))"
    by (rule zero_bits_all_clear [OF wf]) simp
  then show ?thesis using inv wf True by (simp add: bitmap_inv_def clear_all_def)
qed

lemma zero_bits_free_count [simp]: "zero_bits (b\<lparr>free_bits_count := c\<rparr>) = zero_bits b"
  by (simp add: zero_bits_def)

lemma bitmap_wf_free_count [simp]: "bitmap_wf (b\<lparr>free_bits_count := c\<rparr>) = bitmap_wf b"
  by (simp add: bitmap_wf_def)


lemma free_bit_inv:
  assumes "bitmap_inv b"
  shows "bitmap_inv (snd (free_bit b n))"
proof (cases "\<not> bitmap_check_initialized b \<or> \<not> is_valid_bit b n")
  case True
  then show ?thesis using assms by (auto simp: free_bit_def)
next
  case False
  then have v: "is_valid_bit b n" by simp
  have wf: "bitmap_wf b" using assms by (simp add: bitmap_inv_def)
  show ?thesis
  proof (cases "bit_is_set (bitmap_data b) n")
    case nset: False
    with False show ?thesis using assms by (simp add: free_bit_def)
  next
    case set: True
    have z: "zero_bits (clear_bit b n) = zero_bits b + 1"
      by (rule zero_bits_clear [OF wf v set])
    have e: "snd (free_bit b n) = (clear_bit b n)\<lparr>free_bits_count := free_bits_count b + 1\<rparr>"
      using False set by (simp add: free_bit_def)
    show ?thesis unfolding e using assms z clear_bit_wf [OF wf, of n]
      by (simp add: bitmap_inv_def)
  qed
qed

lemma load_loop_length:
  "int off + remaining = int (length data) \<Longrightarrow> 0 \<le> remaining \<Longrightarrow>
   length (snd (load_loop dsk start num i data off remaining)) = length data"
proof (induction dsk start num i data off remaining rule: load_loop.induct)
  case (1 dsk start num i data off remaining)
  note unf = load_loop.simps [of dsk start num i data off remaining]
  show ?case
  proof (cases "i < num")
    case False
    then show ?thesis by (subst unf) simp
  next
    case True
    show ?thesis
    proof (cases "read_block dsk (start + i)")
      case None
      with True show ?thesis by (subst unf) simp
    next
      case (Some buffer)
      let ?k = "min (int BLOCK_SIZE) remaining"
      show ?thesis
      proof (cases "?k \<le> 0")
        case le: True
        then have "remaining \<le> 0" by simp
        with True Some show ?thesis by (subst unf) (simp add: Let_def)
      next
        case gt: False
        have bl: "length buffer = BLOCK_SIZE" by (rule read_block_length [OF Some])
        have kb: "nat ?k \<le> length buffer" "off + nat ?k \<le> length data"
          using "1.prems" gt bl by auto
        have ml: "length (memcpy data off buffer (nat ?k)) = length data"
          by (rule memcpy_length [OF kb(2) kb(1)])
        have p1: "int (off + nat ?k) + (remaining - ?k) = int (length (memcpy data off buffer (nat ?k)))"
          using "1.prems" gt ml by auto
        have p2: "0 \<le> remaining - ?k" by simp
        have ih: "length (snd (load_loop dsk start num (i + 1) (memcpy data off buffer (nat ?k))
                    (off + nat ?k) (remaining - ?k))) = length (memcpy data off buffer (nat ?k))"
          by (rule "1.IH" [OF True Some refl gt p1 p2])
        have e: "load_loop dsk start num i data off remaining =
                 load_loop dsk start num (i + 1) (memcpy data off buffer (nat ?k)) (off + nat ?k) (remaining - ?k)"
          using True Some gt by (subst unf) (simp add: Let_def)
        show ?thesis unfolding e ih ml ..
      qed
    qed
  qed
qed

lemma load_from_disk_inv:
  assumes "bitmap_inv b" "load_from_disk b dsk start num = (True, b')"
  shows "bitmap_inv b'"
proof -
  have init: "bitmap_check_initialized b"
    using assms(2) by (auto simp: load_from_disk_def split: if_splits)
  define r where "r = load_loop dsk start num 0 (bitmap_data b) 0 (bitmap_size b)"
  define b1 where "b1 = b\<lparr>start_block := start, block_count := num, bitmap_data := snd r\<rparr>"
  have e: "b' = recalculate_free_bits b1"
    using assms(2) init by (auto simp: load_from_disk_def Let_def r_def b1_def split: if_splits)
  have wfb: "bitmap_wf b" "total_bits b \<ge> 0" using assms(1) by (simp_all add: bitmap_inv_def)
  have len: "length (snd r) = length (bitmap_data b)"
    unfolding r_def using wfb init
    by (intro load_loop_length) (auto simp: bitmap_wf_def bitmap_check_initialized_def)
  have wf1: "bitmap_wf b1" using wfb len by (simp add: bitmap_wf_def b1_def)
  have t1: "total_bits b1 \<ge> 0" using wfb by (simp add: b1_def)
  have wf': "bitmap_wf b'" "total_bits b' = total_bits b1"
    using wf1 by (auto simp: e recalculate_free_bits_def bitmap_wf_def)
  show ?thesis using recalculate_free_bits_inv [OF wf1 t1] wf' t1
    by (simp add: bitmap_inv_def e)
qed



text \<open>
  Claim C4 (fails on the code after a failed load). A bitmap of eight bits with three bits
  taken is loaded from two blocks starting at the last block of the example device: the
  first block is copied over the array, the second read fails, and
  \<^verbatim>\<open>load_from_disk\<close> returns without recounting. The counter still says 5 while all eight
  bits of the array are zero.
\<close>

theorem load_from_disk_failure_stale_counter:
  "load_from_disk \<lparr>bitmap_data = [7], bitmap_size = 1, total_bits = 8, free_bits_count = 5,
                    start_block = 0, block_count = 0\<rparr> example_disk 63 2
     = (False, \<lparr>bitmap_data = [0], bitmap_size = 1, total_bits = 8, free_bits_count = 5,
                  start_block = 63, block_count = 2\<rparr>) \<and>
   bitmap_inv \<lparr>bitmap_data = [7], bitmap_size = 1, total_bits = 8, free_bits_count = 5,
                start_block = 0, block_count = 0\<rparr> \<and>
   get_free_bits \<lparr>bitmap_data = [0], bitmap_size = 1, total_bits = 8, free_bits_count = 5,
                   start_block = 63, block_count = 2\<rparr> = 5 \<and>
   zero_bits \<lparr>bitmap_data = [0], bitmap_size = 1, total_bits = 8, free_bits_count = 5,
               start_block = 63, block_count = 2\<rparr> = 8"
proof -
  have r63: "read_block example_disk 63 = Some (replicate BLOCK_SIZE 0)"
    by (simp add: read_block_def example_disk_def open_disk_def new_DiskSimulator_def
        example_image_def is_ready_for_io_def map_replicate_const sdiv_nonneg int32_id)
  have r64: "read_block example_disk 64 = None"
    by (simp add: read_block_def)
  have l: "load_from_disk \<lparr>bitmap_data = [7], bitmap_size = 1, total_bits = 8, free_bits_count = 5,
                    start_block = 0, block_count = 0\<rparr> example_disk 63 2
     = (False, \<lparr>bitmap_data = [0], bitmap_size = 1, total_bits = 8, free_bits_count = 5,
                  start_block = 63, block_count = 2\<rparr>)"
    by (simp add: load_from_disk_def bitmap_check_initialized_def Let_def
        load_loop.simps r63 r64 memcpy_def)
  have i: "bitmap_inv \<lparr>bitmap_data = [7], bitmap_size = 1, total_bits = 8, free_bits_count = 5,
                start_block = 0, block_count = 0\<rparr>"
    by (simp add: bitmap_inv_def bitmap_wf_def zero_bits_def bit_is_set_iff eval_nat_numeral upt_rec)
  have z: "zero_bits \<lparr>bitmap_data = [0], bitmap_size = 1, total_bits = 8, free_bits_count = 5,
               start_block = 63, block_count = 2\<rparr> = 8"
    by (simp add: zero_bits_def bit_is_set_iff eval_nat_numeral upt_rec)
  show ?thesis using l i z by (simp add: get_free_bits_def)
qed

subsection \<open>Bytes, blocks and inodes\<close>

lemma byte_slice_bit:
  "bit (push_bit k (ucast (ucast (drop_bit k (w :: 'a::len word)) :: byte) :: 'a word)) n
     = (k \<le> n \<and> n < k + 8 \<and> bit w n)"
  by (auto simp add: bit_simps dest: bit_imp_le_length)

lemma byte_slice_bit0:
  "bit (ucast (ucast (w :: 'a::len word) :: byte) :: 'a word) n = (n < 8 \<and> bit w n)"
  by (auto simp add: bit_simps dest: bit_imp_le_length)

lemma join32:
  "ucast (ucast (w :: 32 word) :: byte) OR push_bit 8 (ucast (ucast (drop_bit 8 w) :: byte))
     OR push_bit 16 (ucast (ucast (drop_bit 16 w) :: byte))
     OR push_bit 24 (ucast (ucast (drop_bit 24 w) :: byte)) = w"
  apply (rule bit_word_eqI)
  apply (simp add: bit_or_iff byte_slice_bit byte_slice_bit0)
  apply auto
  done

lemma join64:
  "ucast (ucast (w :: 64 word) :: byte) OR push_bit 8 (ucast (ucast (drop_bit 8 w) :: byte))
     OR push_bit 16 (ucast (ucast (drop_bit 16 w) :: byte))
     OR push_bit 24 (ucast (ucast (drop_bit 24 w) :: byte))
     OR push_bit 32 (ucast (ucast (drop_bit 32 w) :: byte))
     OR push_bit 40 (ucast (ucast (drop_bit 40 w) :: byte))
     OR push_bit 48 (ucast (ucast (drop_bit 48 w) :: byte))
     OR push_bit 56 (ucast (ucast (drop_bit 56 w) :: byte)) = w"
  apply (rule bit_word_eqI)
  apply (simp add: bit_or_iff byte_slice_bit byte_slice_bit0)
  apply auto
  done

lemma rd32_le32: "rd32 (le32 w) 0 = w"
  by (simp add: rd32_def le32_def join32)

lemma length_le32 [simp]: "length (le32 w) = 4"
  by (simp add: le32_def)

lemma length_le64 [simp]: "length (le64 w) = 8"
  by (simp add: le64_def)

lemma rd32_append_right: "length xs = off \<Longrightarrow> rd32 (xs @ ys) (off + k) = rd32 ys k"
  by (simp add: rd32_def nth_append add.assoc)

lemma rd64_append_right: "length xs = off \<Longrightarrow> rd64 (xs @ ys) (off + k) = rd64 ys k"
  by (simp add: rd64_def nth_append add.assoc)

lemma rd32_le32_append: "rd32 (le32 w @ ys) 0 = w"
  by (simp add: rd32_def le32_def join32)

lemma rd64_le64_append: "rd64 (le64 w @ ys) 0 = w"
  by (simp add: rd64_def le64_def join64)

lemma upt10: "[0..<10] = [0, 1, 2, 3, 4, 5, 6, 7, 8, 9]"
  by code_simp

lemma list10:
  assumes "length (xs :: 'a list) = 10"
  obtains a0 a1 a2 a3 a4 a5 a6 a7 a8 a9 where "xs = [a0, a1, a2, a3, a4, a5, a6, a7, a8, a9]"
proof -
  from assms have "xs = map (\<lambda>i. xs ! i) [0..<10]" by (metis map_nth)
  then have "xs = [xs!0, xs!1, xs!2, xs!3, xs!4, xs!5, xs!6, xs!7, xs!8, xs!9]"
    unfolding upt10 by simp
  then show ?thesis using that by blast
qed

lemma length_concat_le32 [simp]: "length (concat (map le32 zs)) = 4 * length zs"
  by (induction zs) auto

lemma length_encode_inode [simp]: "length (encode_inode I) = INODE_SIZE"
proof -
  have "length (take DIRECT_BLOCKS_COUNT (direct_blocks I @ replicate DIRECT_BLOCKS_COUNT 0)) = 10"
    by simp
  then have "length (concat (map le32
      (take DIRECT_BLOCKS_COUNT (direct_blocks I @ replicate DIRECT_BLOCKS_COUNT 0)))) = 40"
    unfolding length_concat_le32 by simp
  then show ?thesis unfolding encode_inode_def by simp
qed

lemma rd32_drop: "off \<le> length bs \<Longrightarrow> rd32 bs off = rd32 (drop off bs) 0"
  by (simp add: rd32_def)

lemma rd64_drop: "off \<le> length bs \<Longrightarrow> rd64 bs off = rd64 (drop off bs) 0"
  by (simp add: rd64_def)

lemma decode_encode_inode:
  assumes "length (direct_blocks I) = DIRECT_BLOCKS_COUNT"
  shows "decode_inode (encode_inode I) = I"
proof -
  from assms obtain a0 a1 a2 a3 a4 a5 a6 a7 a8 a9 where
    d: "direct_blocks I = [a0, a1, a2, a3, a4, a5, a6, a7, a8, a9]" by (rule list10)
  define bs where "bs = encode_inode I"
  have e: "bs =
     le32 (mode I) @ le32 (owner_id I) @ le32 (group_id I) @ le32 (size_i I) @
     le64 (access_time I) @ le64 (modification_time I) @ le64 (creation_time I) @
     le32 (link_count I) @ le32 a0 @ le32 a1 @ le32 a2 @ le32 a3 @ le32 a4 @ le32 a5 @
     le32 a6 @ le32 a7 @ le32 a8 @ le32 a9 @
     le32 (indirect_block I) @ le32 (double_indirect_block I) @ replicate 4 0"
    by (simp add: bs_def encode_inode_def d)
  have l: "length bs = 96" by (simp add: bs_def)
  have r32: "\<And>off w ys. off \<le> 96 \<Longrightarrow> drop off bs = le32 w @ ys \<Longrightarrow> rd32 bs off = w"
    using l by (simp add: rd32_drop rd32_le32_append)
  have r64: "\<And>off w ys. off \<le> 96 \<Longrightarrow> drop off bs = le64 w @ ys \<Longrightarrow> rd64 bs off = w"
    using l by (simp add: rd64_drop rd64_le64_append)
  have f: "rd32 bs 0 = mode I" "rd32 bs 4 = owner_id I" "rd32 bs 8 = group_id I"
    "rd32 bs 12 = size_i I" "rd64 bs 16 = access_time I" "rd64 bs 24 = modification_time I"
    "rd64 bs 32 = creation_time I" "rd32 bs 40 = link_count I"
    "rd32 bs 84 = indirect_block I" "rd32 bs 88 = double_indirect_block I"
    by (rule r32 r64, simp, simp add: e)+
  have g: "rd32 bs 44 = a0" "rd32 bs 48 = a1" "rd32 bs 52 = a2" "rd32 bs 56 = a3"
    "rd32 bs 60 = a4" "rd32 bs 64 = a5" "rd32 bs 68 = a6" "rd32 bs 72 = a7"
    "rd32 bs 76 = a8" "rd32 bs 80 = a9"
    by (rule r32, simp, simp add: e)+
  show ?thesis
    unfolding bs_def [symmetric] decode_inode_def upt10 using f g d by simp
qed

lemma read_write_same:
  assumes "write_block d n buf = Some d'" "length buf = BLOCK_SIZE"
  shows "read_block d' n = Some buf"
proof -
  have r: "is_ready_for_io d n" "is_ready_for_io d' n"
    using assms(1) by (auto simp: write_block_def is_ready_for_io_def split: if_splits)
  have "map (\<lambda>i. disk_bytes d' (nat n * BLOCK_SIZE + i)) [0..<BLOCK_SIZE] =
        map (\<lambda>i. buf ! i) [0..<BLOCK_SIZE]"
    using assms(1) by (intro map_cong) (auto simp: write_block_def split: if_splits)
  also have "\<dots> = buf" using assms(2) by (metis map_nth)
  finally show ?thesis using r by (simp add: read_block_def)
qed

lemma write_block_ready:
  "write_block d n buf = Some d' \<Longrightarrow> is_ready_for_io d' m = is_ready_for_io d m"
  by (auto simp: write_block_def is_ready_for_io_def split: if_splits)

lemma write_block_fields:
  "write_block d n buf = Some d' \<Longrightarrow>
     disk_open d' = disk_open d \<and> total_blocks d' = total_blocks d \<and>
     disk_size d' = disk_size d \<and> lock_acquired d' = lock_acquired d \<and> is_ready_for_io d n"
  by (auto simp: write_block_def split: if_splits)

lemma write_block_Some: "is_ready_for_io d n \<Longrightarrow> \<exists>d'. write_block d n buf = Some d'"
  by (simp add: write_block_def)

lemma read_block_Some: "is_ready_for_io d n \<Longrightarrow> \<exists>b. read_block d n = Some b"
  by (simp add: read_block_def)

lemma read_write_other:
  assumes "write_block d n buf = Some d'" "m \<noteq> n"
  shows "read_block d' m = read_block d m"
proof (cases "is_ready_for_io d m")
  case False
  then show ?thesis using write_block_ready [OF assms(1), of m] by (simp add: read_block_def)
next
  case True
  then have m0: "0 \<le> m" by (auto simp: is_ready_for_io_def split: if_splits)
  have n0: "0 \<le> n" using assms(1) by (auto simp: write_block_def is_ready_for_io_def split: if_splits)
  have "\<And>i. i < BLOCK_SIZE \<Longrightarrow> (nat m * BLOCK_SIZE + i) div BLOCK_SIZE \<noteq> nat n"
    using m0 n0 assms(2) by auto
  then have "map (\<lambda>i. disk_bytes d' (nat m * BLOCK_SIZE + i)) [0..<BLOCK_SIZE] =
             map (\<lambda>i. disk_bytes d (nat m * BLOCK_SIZE + i)) [0..<BLOCK_SIZE]"
    using assms(1) by (intro map_cong) (auto simp: write_block_def split: if_splits)
  then show ?thesis using True write_block_ready [OF assms(1), of m] by (simp add: read_block_def)
qed

lemma memcpy_read_back:
  "off + n \<le> length dest \<Longrightarrow> length src = n \<Longrightarrow> take n (drop off (memcpy dest off src n)) = src"
  by (simp add: memcpy_def)

lemma memcpy_before:
  "off2 + n2 \<le> off \<Longrightarrow> off \<le> length dest \<Longrightarrow>
   take n2 (drop off2 (memcpy dest off src n)) = take n2 (drop off2 dest)"
proof -
  assume a: "off2 + n2 \<le> off" "off \<le> length dest"
  have d: "drop off2 (take off dest) = take (off - off2) (drop off2 dest)"
    by (simp add: drop_take)
  have "drop off2 (memcpy dest off src n) =
        take (off - off2) (drop off2 dest) @ take n src @ drop (off + n) dest"
    using a d by (simp add: memcpy_def)
  moreover have "n2 \<le> length (take (off - off2) (drop off2 dest))" using a by simp
  ultimately have "take n2 (drop off2 (memcpy dest off src n)) =
        take n2 (take (off - off2) (drop off2 dest))" by simp
  also have "\<dots> = take n2 (drop off2 dest)" using a by (simp add: min_def)
  finally show ?thesis .
qed

lemma memcpy_after:
  "off + n \<le> off2 \<Longrightarrow> off + n \<le> length dest \<Longrightarrow> n \<le> length src \<Longrightarrow>
   drop off2 (memcpy dest off src n) = drop off2 dest"
  by (simp add: memcpy_def min_def)

lemma write_inode_Some:
  assumes "write_inode s n I = Some s'"
  obtains bn off buf d' where
    "inode_check_initialized s" "get_inode_position s n = Some (bn, off)"
    "read_block (disk s) bn = Some buf"
    "write_block (disk s) bn (memcpy buf off (encode_inode I) INODE_SIZE) = Some d'"
    "s' = s\<lparr>disk := d'\<rparr>"
  using assms unfolding write_inode_def
  by (auto split: if_splits option.splits prod.splits)

lemma get_inode_position_bounds:
  assumes "get_inode_position s n = Some (bn, off)"
  shows "off + INODE_SIZE \<le> BLOCK_SIZE \<and> 0 \<le> n \<and>
         bn = inode_table_start (im_layout (inode_manager s)) + n div INODES_PER_BLOCK \<and>
         off = nat (n mod INODES_PER_BLOCK) * INODE_SIZE"
proof -
  have n: "0 \<le> n" "bn = inode_table_start (im_layout (inode_manager s)) + n div INODES_PER_BLOCK"
     "off = nat (n mod INODES_PER_BLOCK) * INODE_SIZE"
    using assms by (auto simp: get_inode_position_def split: if_splits)
  have "nat (n mod 42) \<le> 41" by (simp add: nat_le_iff)
  then show ?thesis using n by simp
qed

lemma get_inode_position_disk [simp]:
  "get_inode_position (s\<lparr>disk := d\<rparr>) n = get_inode_position s n"
  by (simp add: get_inode_position_def get_total_inodes_def)

lemma inode_check_initialized_disk [simp]:
  "inode_check_initialized (s\<lparr>disk := d\<rparr>) = inode_check_initialized s"
  by (simp add: inode_check_initialized_def)

lemma read_after_write_inode:
  assumes "write_inode s n I = Some s'" "length (direct_blocks I) = DIRECT_BLOCKS_COUNT"
  shows "read_inode s' n = Some I"
proof -
  from assms(1) obtain bn off buf d' where w:
    "inode_check_initialized s" "get_inode_position s n = Some (bn, off)"
    "read_block (disk s) bn = Some buf"
    "write_block (disk s) bn (memcpy buf off (encode_inode I) INODE_SIZE) = Some d'"
    "s' = s\<lparr>disk := d'\<rparr>" by (rule write_inode_Some)
  have bl: "length buf = BLOCK_SIZE" using w(3) by (auto simp: read_block_def split: if_splits)
  have ob: "off + INODE_SIZE \<le> BLOCK_SIZE" using get_inode_position_bounds [OF w(2)] by simp
  have ml: "length (memcpy buf off (encode_inode I) INODE_SIZE) = BLOCK_SIZE"
    using bl ob by (simp add: memcpy_def)
  have rb: "read_block d' bn = Some (memcpy buf off (encode_inode I) INODE_SIZE)"
    by (rule read_write_same [OF w(4) ml])
  have "take INODE_SIZE (drop off (memcpy buf off (encode_inode I) INODE_SIZE)) = encode_inode I"
    using bl ob by (intro memcpy_read_back) simp_all
  then show ?thesis using w rb decode_encode_inode [OF assms(2)]
    by (simp add: read_inode_def)
qed

lemma slot_disjoint:
  assumes "(k::int) \<noteq> m" "0 \<le> k" "0 \<le> m" "k div 42 = m div 42"
  shows "nat (k mod 42) * 96 + 96 \<le> nat (m mod 42) * 96 \<or>
         nat (m mod 42) * 96 + 96 \<le> nat (k mod 42) * 96"
proof -
  have "k mod 42 \<noteq> m mod 42" using assms(1,4) by (metis mult_div_mod_eq)
  moreover have "0 \<le> k mod 42" "0 \<le> m mod 42" by simp_all
  ultimately have "nat (k mod 42) \<noteq> nat (m mod 42)" by (metis nat_0_le)
  then show ?thesis by arith
qed

lemma read_other_after_write_inode:
  assumes "write_inode s m J = Some s'" "k \<noteq> m"
  shows "read_inode s' k = read_inode s k"
proof -
  from assms(1) obtain bn off buf d' where w:
    "inode_check_initialized s" "get_inode_position s m = Some (bn, off)"
    "read_block (disk s) bn = Some buf"
    "write_block (disk s) bn (memcpy buf off (encode_inode J) INODE_SIZE) = Some d'"
    "s' = s\<lparr>disk := d'\<rparr>" by (rule write_inode_Some)
  show ?thesis
  proof (cases "get_inode_position s k")
    case None
    then show ?thesis using w by (simp add: read_inode_def)
  next
    case (Some p)
    obtain bk offk where p: "p = (bk, offk)" by (cases p)
    note pk = get_inode_position_bounds [OF Some [unfolded p]]
    note pm = get_inode_position_bounds [OF w(2)]
    show ?thesis
    proof (cases "bk = bn")
      case False
      then have "read_block d' bk = read_block (disk s) bk"
        using read_write_other [OF w(4)] by simp
      then show ?thesis using w Some p by (simp add: read_inode_def)
    next
      case True
      have bl: "length buf = BLOCK_SIZE" using w(3) by (auto simp: read_block_def split: if_splits)
      have ml: "length (memcpy buf off (encode_inode J) INODE_SIZE) = BLOCK_SIZE"
        using bl pm by (simp add: memcpy_def)
      have rb: "read_block d' bn = Some (memcpy buf off (encode_inode J) INODE_SIZE)"
        by (rule read_write_same [OF w(4) ml])
      have dv: "k div 42 = m div 42" using True pk pm by simp
      have dj: "offk + 96 \<le> off \<or> off + 96 \<le> offk"
        using slot_disjoint [OF assms(2) _ _ dv] pk pm by simp
      have "take INODE_SIZE (drop offk (memcpy buf off (encode_inode J) INODE_SIZE)) =
            take INODE_SIZE (drop offk buf)"
      proof (cases "offk + 96 \<le> off")
        case True
        then show ?thesis using bl pm by (intro memcpy_before) simp_all
      next
        case False
        then have "off + 96 \<le> offk" using dj by simp
        then have "drop offk (memcpy buf off (encode_inode J) INODE_SIZE) = drop offk buf"
          using bl pm by (intro memcpy_after) simp_all
        then show ?thesis by simp
      qed
      then show ?thesis using w Some p True rb by (simp add: read_inode_def)
    qed
  qed
qed

lemma write_inode_ok:
  assumes "inode_check_initialized s" "0 \<le> n" "n < get_total_inodes s"
    "is_ready_for_io (disk s) (inode_table_start (im_layout (inode_manager s)) + n div INODES_PER_BLOCK)"
  shows "\<exists>d'. write_inode s n I = Some (s\<lparr>disk := d'\<rparr>) \<and>
              disk_open d' = disk_open (disk s) \<and> total_blocks d' = total_blocks (disk s)"
proof -
  let ?bn = "inode_table_start (im_layout (inode_manager s)) + n div INODES_PER_BLOCK"
  let ?off = "nat (n mod INODES_PER_BLOCK) * INODE_SIZE"
  have p: "get_inode_position s n = Some (?bn, ?off)"
    using assms(2,3) by (simp add: get_inode_position_def)
  obtain buf where r: "read_block (disk s) ?bn = Some buf"
    using read_block_Some [OF assms(4)] by blast
  obtain d' where w: "write_block (disk s) ?bn (memcpy buf ?off (encode_inode I) INODE_SIZE) = Some d'"
    using write_block_Some [OF assms(4)] by blast
  have "write_inode s n I = Some (s\<lparr>disk := d'\<rparr>)"
    using assms(1) p r w by (simp add: write_inode_def)
  then show ?thesis using write_block_fields [OF w] by blast
qed

lemma write_inodes_preserve:
  assumes "write_inodes s ws = Some s'" "\<forall>w \<in> set ws. fst w \<noteq> n"
  shows "read_inode s' n = read_inode s n"
  using assms
proof (induction ws arbitrary: s)
  case Nil
  then show ?case by simp
next
  case (Cons w ws)
  obtain m J where w: "w = (m, J)" by (cases w)
  from Cons.prems(1) obtain s1 where
    s1: "write_inode s m J = Some s1" "write_inodes s1 ws = Some s'"
    by (auto simp: w split: option.splits)
  have "m \<noteq> n" using Cons.prems(2) w by auto
  then have "read_inode s1 n = read_inode s n"
    using read_other_after_write_inode [OF s1(1), of n] by simp
  moreover have "read_inode s' n = read_inode s1 n"
    using Cons.IH [OF s1(2)] Cons.prems(2) by simp
  ultimately show ?case by simp
qed

text \<open>
  Claim C2. After \<^verbatim>\<open>write_inode(n, I)\<close> and any further successful writes of inodes other
  than \<open>n\<close>, \<^verbatim>\<open>read_inode(n)\<close> yields \<open>I\<close>; and one \<^verbatim>\<open>write_inode(m, J)\<close> leaves what
  \<^verbatim>\<open>read_inode\<close> yields for every other inode as it was, the slots of the same block
  included. The array \<open>direct_blocks\<close> of an \<^verbatim>\<open>Inode\<close> has ten entries.
\<close>

theorem write_inode_isolated:
  "(length (direct_blocks I) = DIRECT_BLOCKS_COUNT \<and> write_inode s n I = Some s1 \<and>
    write_inodes s1 ws = Some s2 \<and> (\<forall>w \<in> set ws. fst w \<noteq> n)
      \<longrightarrow> read_inode s2 n = Some I) \<and>
   (write_inode s m J = Some s' \<and> k \<noteq> m \<longrightarrow> read_inode s' k = read_inode s k)"
proof -
  have a: "read_inode s2 n = Some I"
    if "length (direct_blocks I) = DIRECT_BLOCKS_COUNT" "write_inode s n I = Some s1"
      "write_inodes s1 ws = Some s2" "\<forall>w \<in> set ws. fst w \<noteq> n"
    using write_inodes_preserve [OF that(3,4)] read_after_write_inode [OF that(2,1)] by simp
  have b: "read_inode s' k = read_inode s k" if "write_inode s m J = Some s'" "k \<noteq> m"
    using read_other_after_write_inode [OF that] .
  show ?thesis using a b by blast
qed

theorem write_inode_isolated_witness:
  "\<exists>s1 s2. write_inode blank_fs 5 (initialize_new_inode 7) = Some s1 \<and>
      write_inodes s1 [(6, fou_initialize_new_inode 9 0x8000 1), (4, initialize_new_inode 8)]
        = Some s2 \<and>
      read_inode s2 5 = Some (initialize_new_inode 7) \<and>
      read_inode s1 6 = read_inode blank_fs 6"
proof -
  let ?I = "initialize_new_inode 7"
  let ?J = "fou_initialize_new_inode 9 0x8000 1"
  let ?K = "initialize_new_inode 8"
  have ok: "\<exists>d'. write_inode (blank_fs\<lparr>disk := d\<rparr>) n X = Some (blank_fs\<lparr>disk := d'\<rparr>) \<and>
              disk_open d' \<and> total_blocks d' = 64"
    if "disk_open d" "total_blocks d = 64" "0 \<le> n" "n < 42" for d n X
  proof -
    have "\<exists>d'. write_inode (blank_fs\<lparr>disk := d\<rparr>) n X = Some (blank_fs\<lparr>disk := d\<rparr>\<lparr>disk := d'\<rparr>) \<and>
              disk_open d' = disk_open (disk (blank_fs\<lparr>disk := d\<rparr>)) \<and>
              total_blocks d' = total_blocks (disk (blank_fs\<lparr>disk := d\<rparr>))"
      using that
      by (intro write_inode_ok)
         (simp_all add: inode_check_initialized_def get_total_inodes_def get_total_bits_def
            new_BitmapManager_def example_layout_def is_ready_for_io_def blank_fs_def)
    then show ?thesis using that by simp
  qed
  have b: "blank_fs = blank_fs\<lparr>disk := example_disk\<rparr>" by (simp add: blank_fs_def)
  obtain d1 where d1: "write_inode blank_fs 5 ?I = Some (blank_fs\<lparr>disk := d1\<rparr>)"
      "disk_open d1" "total_blocks d1 = 64"
    using ok [of example_disk 5 ?I] b by auto
  obtain d2 where d2: "write_inode (blank_fs\<lparr>disk := d1\<rparr>) 6 ?J = Some (blank_fs\<lparr>disk := d2\<rparr>)"
      "disk_open d2" "total_blocks d2 = 64"
    using ok [OF d1(2,3), of 6 ?J] by auto
  obtain d3 where d3: "write_inode (blank_fs\<lparr>disk := d2\<rparr>) 4 ?K = Some (blank_fs\<lparr>disk := d3\<rparr>)"
    using ok [OF d2(2,3), of 4 ?K] by auto
  have ws: "write_inodes (blank_fs\<lparr>disk := d1\<rparr>) [(6, ?J), (4, ?K)] = Some (blank_fs\<lparr>disk := d3\<rparr>)"
    using d2 d3 by simp
  have len: "length (direct_blocks ?I) = DIRECT_BLOCKS_COUNT"
    by (simp add: initialize_new_inode_def)
  have ne: "\<forall>w \<in> set [(6, ?J), (4, ?K)]. fst w \<noteq> (5::int)" by simp
  have r: "read_inode (blank_fs\<lparr>disk := d3\<rparr>) 5 = Some ?I"
    using write_inode_isolated [of ?I blank_fs 5 "blank_fs\<lparr>disk := d1\<rparr>" "[(6, ?J), (4, ?K)]"
        "blank_fs\<lparr>disk := d3\<rparr>" 5 ?I "blank_fs\<lparr>disk := d1\<rparr>" 6]
      len d1(1) ws ne by blast
  have q: "read_inode (blank_fs\<lparr>disk := d1\<rparr>) 6 = read_inode blank_fs 6"
    using write_inode_isolated [of ?I blank_fs 5 "blank_fs\<lparr>disk := d1\<rparr>" "[(6, ?J), (4, ?K)]"
        "blank_fs\<lparr>disk := d3\<rparr>" 5 ?I "blank_fs\<lparr>disk := d1\<rparr>" 6]
      d1(1) by simp
  show ?thesis using d1(1) ws r q by blast
qed

subsection \<open>The example states\<close>

lemma read_inode_fds [simp]:
  "read_inode (s\<lparr>file_descriptors := f\<rparr>) n = read_inode s n"
  by (simp add: read_inode_def get_inode_position_def get_total_inodes_def inode_check_initialized_def)

lemma read_inode_next_fd [simp]:
  "read_inode (s\<lparr>next_fd := f\<rparr>) n = read_inode s n"
  by (simp add: read_inode_def get_inode_position_def get_total_inodes_def inode_check_initialized_def)

lemma blank_write_inode:
  assumes "0 \<le> n" "n < 42"
  shows "\<exists>d'. write_inode blank_fs n X = Some (blank_fs\<lparr>disk := d'\<rparr>) \<and>
              disk_open d' \<and> total_blocks d' = 64"
proof -
  have "\<exists>d'. write_inode blank_fs n X = Some (blank_fs\<lparr>disk := d'\<rparr>) \<and>
              disk_open d' = disk_open (disk blank_fs) \<and>
              total_blocks d' = total_blocks (disk blank_fs)"
    using assms
    by (intro write_inode_ok)
       (simp_all add: inode_check_initialized_def get_total_inodes_def get_total_bits_def
          new_BitmapManager_def example_layout_def is_ready_for_io_def)
  then show ?thesis by simp
qed

lemma open_fs_simps:
  "mounted open_fs" "file_descriptors open_fs = [3 \<mapsto> example_fd]"
  "read_inode open_fs 5 = Some example_inode"
proof -
  obtain d' where d: "write_inode blank_fs 5 example_inode = Some (blank_fs\<lparr>disk := d'\<rparr>)"
    using blank_write_inode [of 5 example_inode] by auto
  have l: "length (direct_blocks example_inode) = DIRECT_BLOCKS_COUNT"
    by (simp add: example_inode_def)
  show "mounted open_fs" using d by (simp add: open_fs_def blank_fs_def)
  show "file_descriptors open_fs = [3 \<mapsto> example_fd]" using d by (simp add: open_fs_def)
  show "read_inode open_fs 5 = Some example_inode"
    using read_after_write_inode [OF d l] d by (simp add: open_fs_def)
qed

lemma write_inode_read_block:
  assumes "write_inode s n I = Some s'"
    "b \<noteq> inode_table_start (im_layout (inode_manager s)) + n div INODES_PER_BLOCK"
  shows "read_block (disk s') b = read_block (disk s) b"
proof -
  from assms(1) obtain bn off buf d' where w:
    "get_inode_position s n = Some (bn, off)"
    "write_block (disk s) bn (memcpy buf off (encode_inode I) INODE_SIZE) = Some d'"
    "s' = s\<lparr>disk := d'\<rparr>" by (rule write_inode_Some)
  have "bn = inode_table_start (im_layout (inode_manager s)) + n div INODES_PER_BLOCK"
    using get_inode_position_bounds [OF w(1)] by simp
  then show ?thesis using read_write_other [OF w(2), of b] assms(2) w(3) by simp
qed




lemma open_fs_blocks:
  "get_data_blocks open_fs 5 = Some [5]"
  "read_block (disk open_fs) 5 = read_block example_disk 5"
proof -
  obtain d' where d: "write_inode blank_fs 5 example_inode = Some (blank_fs\<lparr>disk := d'\<rparr>)"
    using blank_write_inode [of 5 example_inode] by auto
  have o: "open_fs = blank_fs\<lparr>disk := d', file_descriptors := [3 \<mapsto> example_fd], next_fd := 4\<rparr>"
    using d by (simp add: open_fs_def)
  show "read_block (disk open_fs) 5 = read_block example_disk 5"
    using write_inode_read_block [OF d, of 5] by (simp add: o example_layout_def)
  have i: "inode_check_initialized open_fs"
    by (simp add: o inode_check_initialized_def)
  show "get_data_blocks open_fs 5 = Some [5]"
    using i open_fs_simps(3) by (simp add: get_data_blocks_def example_inode_def initialize_new_inode_def)
qed

subsection \<open>Indirect blocks\<close>

lemma rd32_concat_le32:
  "i < length ws \<Longrightarrow> rd32 (concat (map le32 ws) @ ys) (4 * i) = ws ! i"
proof (induction ws arbitrary: i)
  case Nil
  then show ?case by simp
next
  case (Cons w ws)
  show ?case
  proof (cases i)
    case 0
    then show ?thesis using rd32_le32_append [of w "concat (map le32 ws) @ ys"] by simp
  next
    case (Suc j)
    have "rd32 (le32 w @ (concat (map le32 ws) @ ys)) (4 + 4 * j) = rd32 (concat (map le32 ws) @ ys) (4 * j)"
      by (rule rd32_append_right) simp
    then show ?thesis using Suc Cons by simp
  qed
qed

lemma rd32_zeros:
  "k + 3 < n \<Longrightarrow> rd32 (xs @ replicate n 0) (length xs + k) = 0"
  using rd32_append_right [of xs "length xs" "replicate n 0" k]
  by (simp add: rd32_def)

lemma takeWhile_nonzero_zeros:
  "\<forall>x \<in> set xs. x \<noteq> (0::int) \<Longrightarrow> takeWhile (\<lambda>x. x \<noteq> 0) (xs @ replicate m 0) = xs"
  by (cases m) (simp_all add: takeWhile_append2)

lemma indirect_buffer_read:
  assumes "length ws \<le> PTRS_PER_BLOCK"
  shows "map (\<lambda>i. sint (rd32 (memcpy create_block_buffer 0 (concat (map le32 ws)) (4 * length ws)) (4 * i)))
           [0..<PTRS_PER_BLOCK] =
         map sint ws @ replicate (PTRS_PER_BLOCK - length ws) 0"
proof -
  let ?buf = "memcpy create_block_buffer 0 (concat (map le32 ws)) (4 * length ws)"
  have b: "?buf = concat (map le32 ws) @ replicate (BLOCK_SIZE - 4 * length ws) 0"
    using assms by (simp add: memcpy_def create_block_buffer_def)
  show ?thesis
  proof (rule nth_equalityI)
    show "length (map (\<lambda>i. sint (rd32 ?buf (4 * i))) [0..<PTRS_PER_BLOCK]) =
        length (map sint ws @ replicate (PTRS_PER_BLOCK - length ws) 0)"
      using assms by simp
  next
    fix i assume "i < length (map (\<lambda>i. sint (rd32 ?buf (4 * i))) [0..<PTRS_PER_BLOCK])"
    then have i: "i < 1024" by simp
    have l: "map (\<lambda>i. sint (rd32 ?buf (4 * i))) [0..<PTRS_PER_BLOCK] ! i = sint (rd32 ?buf (4 * i))"
      using i by (simp del: upt_rec_numeral)
    show "map (\<lambda>i. sint (rd32 ?buf (4 * i))) [0..<PTRS_PER_BLOCK] ! i =
        (map sint ws @ replicate (PTRS_PER_BLOCK - length ws) 0) ! i"
    proof (cases "i < length ws")
      case True
      then show ?thesis by (simp only: l) (simp add: b rd32_concat_le32 nth_append)
    next
      case False
      have "rd32 (concat (map le32 ws) @ replicate (BLOCK_SIZE - 4 * length ws) 0)
              (length (concat (map le32 ws)) + (4 * i - 4 * length ws)) = 0"
        using False i by (intro rd32_zeros) simp
      moreover have "length (concat (map le32 ws)) + (4 * i - 4 * length ws) = 4 * i"
        using False by simp
      ultimately show ?thesis using False i by (simp only: l) (simp add: b nth_append)
    qed
  qed
qed

lemma sint_word_of_int_32:
  "- 2147483648 \<le> x \<Longrightarrow> x < 2147483648 \<Longrightarrow> sint (word_of_int x :: 32 word) = x"
  by (simp add: sint_sbintrunc' signed_take_bit_int_eq_self)

lemma read_write_indirect:
  assumes "write_indirect_block d b l = Some d'"
    "\<forall>x \<in> set (take PTRS_PER_BLOCK l). x \<noteq> 0 \<and> - 2147483648 \<le> x \<and> x < 2147483648"
  shows "read_indirect_block d' b = Some (take PTRS_PER_BLOCK l)"
proof -
  let ?ws = "map (\<lambda>x. word_of_int x :: 32 word) (take PTRS_PER_BLOCK l)"
  let ?buf = "memcpy create_block_buffer 0 (concat (map le32 ?ws)) (4 * length ?ws)"
  have lw: "length ?ws \<le> PTRS_PER_BLOCK" by simp
  have lm: "length ?ws = min (length l) PTRS_PER_BLOCK" by simp
  have w: "write_block d b ?buf = Some d'"
    using assms(1) unfolding write_indirect_block_def lm by (simp add: comp_def)
  have bl: "length ?buf = BLOCK_SIZE"
    by (simp add: memcpy_def create_block_buffer_def del: map_map)
  have r: "read_block d' b = Some ?buf" using read_write_same [OF w bl] .
  have s: "map sint ?ws = take PTRS_PER_BLOCK l"
    using assms(2) by (simp add: map_idI sint_word_of_int_32 comp_def)
  have nz: "\<forall>x \<in> set (map sint ?ws). x \<noteq> 0" unfolding s using assms(2) by simp
  have "takeWhile (\<lambda>x. x \<noteq> 0) (map (\<lambda>i. sint (rd32 ?buf (4 * i))) [0..<PTRS_PER_BLOCK]) = map sint ?ws"
    unfolding indirect_buffer_read [OF lw] using nz by (rule takeWhile_nonzero_zeros)
  then show ?thesis unfolding read_indirect_block_def r s by simp
qed

lemma write_indirect_block_other:
  "write_indirect_block d b l = Some d' \<Longrightarrow> m \<noteq> b \<Longrightarrow> read_block d' m = read_block d m"
  unfolding write_indirect_block_def by (rule read_write_other)

lemma write_indirect_block_fields:
  "write_indirect_block d b l = Some d' \<Longrightarrow>
     disk_open d' = disk_open d \<and> total_blocks d' = total_blocks d \<and> is_ready_for_io d b"
  unfolding write_indirect_block_def using write_block_fields by blast

lemma write_indirect_block_Some:
  "is_ready_for_io d b \<Longrightarrow> \<exists>d'. write_indirect_block d b l = Some d'"
  unfolding write_indirect_block_def by (rule write_block_Some)

lemma read_indirect_block_cong:
  "read_block d' b = read_block d b \<Longrightarrow> read_indirect_block d' b = read_indirect_block d b"
  by (simp add: read_indirect_block_def)

lemma leak_fs_facts:
  "\<exists>d. leak_fs = blank_fs\<lparr>inode_manager := (inode_manager blank_fs)\<lparr>inode_bitmap := leak_inodes, data_bitmap := leak_bitmap\<rparr>,
        disk := d\<rparr> \<and>
     disk_open d \<and> total_blocks d = 64 \<and>
     read_indirect_block d 10 = Some [11] \<and> read_indirect_block d 11 = Some [12]"
  "read_inode leak_fs 5 = Some leak_inode"
proof -
  obtain d1 where d1: "write_indirect_block example_disk 10 [11] = Some d1"
    using write_indirect_block_Some [of example_disk 10] by auto
  have f1: "disk_open d1" "total_blocks d1 = 64" using write_indirect_block_fields [OF d1] by simp_all
  obtain d2 where d2: "write_indirect_block d1 11 [12] = Some d2"
    using write_indirect_block_Some [of d1 11] f1 by (auto simp: is_ready_for_io_def)
  have f2: "disk_open d2" "total_blocks d2 = 64" using write_indirect_block_fields [OF d2] f1 by simp_all
  let ?s = "blank_fs\<lparr>disk := d2, inode_manager := (inode_manager blank_fs)\<lparr>inode_bitmap := leak_inodes, data_bitmap := leak_bitmap\<rparr>\<rparr>"
  have "\<exists>d'. write_inode ?s 5 leak_inode = Some (?s\<lparr>disk := d'\<rparr>) \<and>
              disk_open d' = disk_open (disk ?s) \<and> total_blocks d' = total_blocks (disk ?s)"
    using f2
    by (intro write_inode_ok)
       (simp_all add: inode_check_initialized_def get_total_inodes_def get_total_bits_def
          new_BitmapManager_def leak_inodes_def example_layout_def is_ready_for_io_def)
  then obtain d3 where d3: "write_inode ?s 5 leak_inode = Some (?s\<lparr>disk := d3\<rparr>)"
    "disk_open d3" "total_blocks d3 = 64" using f2 by auto
  have l: "leak_fs = ?s\<lparr>disk := d3\<rparr>" using d1 d2 d3(1) by (simp add: leak_fs_def)
  have r10: "read_indirect_block d1 10 = Some [11]"
    using read_write_indirect [OF d1] by simp
  have r11: "read_indirect_block d2 11 = Some [12]"
    using read_write_indirect [OF d2] by simp
  have r10': "read_indirect_block d2 10 = Some [11]"
    using read_indirect_block_cong [OF write_indirect_block_other [OF d2, of 10]] r10 by simp
  have "read_block d3 10 = read_block d2 10" "read_block d3 11 = read_block d2 11"
    using write_inode_read_block [OF d3(1), of 10] write_inode_read_block [OF d3(1), of 11]
    by (simp_all add: example_layout_def)
  then have "read_indirect_block d3 10 = Some [11]" "read_indirect_block d3 11 = Some [12]"
    using r10' r11 read_indirect_block_cong by metis+
  then show "\<exists>d. leak_fs = blank_fs\<lparr>inode_manager := (inode_manager blank_fs)\<lparr>inode_bitmap := leak_inodes, data_bitmap := leak_bitmap\<rparr>,
        disk := d\<rparr> \<and>
     disk_open d \<and> total_blocks d = 64 \<and>
     read_indirect_block d 10 = Some [11] \<and> read_indirect_block d 11 = Some [12]"
    using l d3 by (intro exI [of _ d3]) simp
  have len: "length (direct_blocks leak_inode) = DIRECT_BLOCKS_COUNT"
    by (simp add: leak_inode_def initialize_new_inode_def)
  show "read_inode leak_fs 5 = Some leak_inode"
    using read_after_write_inode [OF d3(1) len] l by simp
qed

subsection \<open>The open-file table\<close>

lemma skip_used_fds_free: "fds nfd = None \<Longrightarrow> skip_used_fds fds nfd = Some nfd"
  by (subst skip_used_fds.simps) simp

lemma skip_used_fds_unused: "skip_used_fds fds nfd = Some k \<Longrightarrow> fds k = None"
  apply (rule skip_used_fds.raw_induct [where P = "\<lambda>fds nfd k. fds k = None"])
   apply (auto split: if_splits)
  done

lemma allocate_fresh:
  assumes "fd_below s" "next_fd s \<noteq> -1"
  shows "allocate_file_descriptor s i m =
           Some (Some (next_fd s),
             s\<lparr>next_fd := next_fd s + 1,
               file_descriptors := (file_descriptors s)
                 (next_fd s \<mapsto> \<lparr>inode_num = i, fd_mode = m, position = 0, fd_open = True\<rparr>)\<rparr>)"
proof -
  have "file_descriptors s (next_fd s) = None" using assms(1) by (simp add: fd_below_def)
  then have "skip_used_fds (file_descriptors s) (next_fd s) = Some (next_fd s)"
    by (rule skip_used_fds_free)
  then show ?thesis using assms(2)
    by (simp add: allocate_file_descriptor_def allocate_file_descriptor0_def)
qed

lemma allocate_many_fresh:
  "fd_below s \<Longrightarrow> 0 \<le> next_fd s \<Longrightarrow>
   \<exists>s'. allocate_many k s = Some (map (\<lambda>j. next_fd s + int j) [0..<k], s') \<and>
        fd_below s' \<and> next_fd s' = next_fd s + int k"
proof (induction k arbitrary: s)
  case 0
  then show ?case by simp
next
  case (Suc k)
  let ?s1 = "s\<lparr>next_fd := next_fd s + 1,
               file_descriptors := (file_descriptors s)
                 (next_fd s \<mapsto> \<lparr>inode_num = 0, fd_mode = 1, position = 0, fd_open = True\<rparr>)\<rparr>"
  have a: "allocate_file_descriptor s 0 1 = Some (Some (next_fd s), ?s1)"
    using Suc.prems by (intro allocate_fresh) auto
  have b: "fd_below ?s1" using Suc.prems(1) by (auto simp: fd_below_def)
  have c: "0 \<le> next_fd ?s1" using Suc.prems(2) by simp
  from Suc.IH [OF b c] obtain s' where
    s': "allocate_many k ?s1 = Some (map (\<lambda>j. next_fd ?s1 + int j) [0..<k], s')"
        "fd_below s'" "next_fd s' = next_fd ?s1 + int k" by blast
  have m: "next_fd s # map (\<lambda>j. next_fd ?s1 + int j) [0..<k] = map (\<lambda>j. next_fd s + int j) [0..<Suc k]"
    by (simp add: upt_rec [of 0 "Suc k"] map_Suc_upt [symmetric] del: upt_Suc)
  show ?case using a s' m by (auto simp del: upt_Suc)
qed

text \<open>
  Claim C8 (the range part fails on the code). From the table of a new file system, the
  1023rd descriptor handed out is 1025: \<^verbatim>\<open>return next_fd++\<close> leaves \<open>next_fd\<close> above
  every id in use, so the loop that wraps from 1024 to 3 is never entered.
\<close>

theorem allocate_file_descriptor_exceeds_1024:
  "\<exists>fds s'. allocate_many 1023 new_FileSystem = Some (fds, s') \<and>
           length fds = 1023 \<and> last fds = 1025 \<and> next_fd s' = 1026"
proof -
  have b: "fd_below new_FileSystem" by (simp add: fd_below_def new_FileSystem_def)
  have n: "0 \<le> next_fd new_FileSystem" by (simp add: new_FileSystem_def)
  from allocate_many_fresh [OF b n, of 1023] obtain s' where
    s': "allocate_many 1023 new_FileSystem =
           Some (map (\<lambda>j. next_fd new_FileSystem + int j) [0..<1023], s')"
        "next_fd s' = next_fd new_FileSystem + int 1023" by blast
  have l: "last (map (\<lambda>j. next_fd new_FileSystem + int j) [0..<1023]) = 1025"
    by (simp add: last_map new_FileSystem_def)
  show ?thesis using s' l by (simp add: new_FileSystem_def)
qed

subsection \<open>Seeking\<close>

text \<open>
  Claim C9. \<^verbatim>\<open>seek_file(fd, pos)\<close> succeeds exactly when the file system is mounted, \<open>fd\<close> is
  an open descriptor, the inode it names can be read, and \<open>0 \<le> pos \<le> size\<close>. With the
  descriptor open and the size read, a position below zero or above the size is rejected
  with \<^verbatim>\<open>ERROR_INVALID_ARGUMENT\<close>. A call that fails leaves the whole state as it was; a call
  that succeeds changes the position of the descriptor and nothing else.
\<close>

theorem seek_file_iff:
  "(fst (seek_file s fd pos) = Inr () \<longleftrightarrow>
      mounted s \<and>
      (\<exists>desc inode. get_file_descriptor s fd = Some desc \<and>
         read_inode s (inode_num desc) = Some inode \<and> 0 \<le> pos \<and> pos \<le> sint (size_i inode))) \<and>
   (\<forall>desc inode. mounted s \<and> get_file_descriptor s fd = Some desc \<and>
       read_inode s (inode_num desc) = Some inode \<and> (pos < 0 \<or> sint (size_i inode) < pos)
       \<longrightarrow> fst (seek_file s fd pos) = Inl ERROR_INVALID_ARGUMENT) \<and>
   (fst (seek_file s fd pos) \<noteq> Inr () \<longrightarrow> snd (seek_file s fd pos) = s) \<and>
   (fst (seek_file s fd pos) = Inr () \<longrightarrow>
      (\<exists>desc. get_file_descriptor s fd = Some desc \<and>
         snd (seek_file s fd pos) =
           s\<lparr>file_descriptors := (file_descriptors s)(fd \<mapsto> desc\<lparr>position := pos\<rparr>)\<rparr>))"
  by (auto simp: seek_file_def fm_seek_file_def split: option.splits)

theorem seek_file_iff_witness:
  "fst (seek_file open_fs 3 10) = Inr () \<and>
   get_file_descriptor (snd (seek_file open_fs 3 10)) 3 = Some (example_fd\<lparr>position := 10\<rparr>) \<and>
   fst (seek_file open_fs 3 11) = Inl ERROR_INVALID_ARGUMENT \<and>
   fst (seek_file open_fs 3 (-1)) = Inl ERROR_INVALID_ARGUMENT \<and>
   snd (seek_file open_fs 3 11) = open_fs \<and>
   fst (seek_file open_fs 4 0) \<noteq> Inr () \<and> snd (seek_file open_fs 4 0) = open_fs"
proof -
  have g: "get_file_descriptor open_fs 3 = Some example_fd"
    by (simp add: get_file_descriptor_def open_fs_simps example_fd_def)
  have g4: "get_file_descriptor open_fs 4 = None"
    by (simp add: get_file_descriptor_def open_fs_simps)
  have r: "read_inode open_fs (inode_num example_fd) = Some example_inode"
    by (simp add: example_fd_def open_fs_simps)
  have sz: "sint (size_i example_inode) = 10" by (simp add: example_inode_def)
  note t = seek_file_iff [of open_fs 3 10] seek_file_iff [of open_fs 3 11]
    seek_file_iff [of open_fs 3 "-1"] seek_file_iff [of open_fs 4 0]
  have a: "fst (seek_file open_fs 3 10) = Inr ()"
    using t(1) g r sz open_fs_simps(1) by simp
  have b: "fst (seek_file open_fs 3 11) = Inl ERROR_INVALID_ARGUMENT"
    using t(2) g r sz open_fs_simps(1) by simp
  have c: "fst (seek_file open_fs 3 (-1)) = Inl ERROR_INVALID_ARGUMENT"
    using t(3) g r sz open_fs_simps(1) by simp
  have d: "snd (seek_file open_fs 3 11) = open_fs" using t(2) b by simp
  have e: "fst (seek_file open_fs 4 0) \<noteq> Inr ()" using t(4) g4 by simp
  have f: "snd (seek_file open_fs 4 0) = open_fs" using t(4) e by blast
  have h: "get_file_descriptor (snd (seek_file open_fs 3 10)) 3 = Some (example_fd\<lparr>position := 10\<rparr>)"
    using t(1) a g by (auto simp: get_file_descriptor_def example_fd_def)
  show ?thesis using a b c d e f h by simp
qed

subsection \<open>Reading\<close>




lemma blocks_content_length:
  "\<forall>b \<in> set bl. read_block d b \<noteq> None \<Longrightarrow> length (blocks_content d bl) = BLOCK_SIZE * length bl"
proof (induction bl)
  case Nil
  then show ?case by (simp add: blocks_content_def)
next
  case (Cons b bl)
  then obtain buf where buf: "read_block d b = Some buf" by auto
  have "length buf = BLOCK_SIZE" using buf by (rule read_block_length)
  then show ?case using Cons buf by (simp add: blocks_content_def block_bytes_def)
qed




lemma update_file_access_time_fds [simp]:
  "file_descriptors (update_file_access_time s now i) = file_descriptors s"
  by (auto simp: update_file_access_time_def split: option.splits elim!: write_inode_Some)




subsection \<open>Mounting\<close>

lemma read_block0_magic:
  assumes "read_block d 0 = Some buf"
  shows "rd32 buf 0 = rd32 (map (disk_bytes d) [0..<4]) 0"
proof -
  have b: "buf = map (\<lambda>i. disk_bytes d (nat 0 * BLOCK_SIZE + i)) [0..<BLOCK_SIZE]"
    using assms by (auto simp: read_block_def split: if_splits)
  have "buf ! i = disk_bytes d i" if "i < 4" for i
    unfolding b using that by (simp del: upt_rec_numeral)
  then show ?thesis by (simp add: rd32_def del: upt_rec_numeral)
qed

lemma load_superblock_magic:
  assumes "rd32 (map (disk_bytes (disk s)) [0..<4]) 0 \<noteq> MAGIC_NUMBER"
  shows "\<exists>e s'. load_superblock s = (Inl e, s') \<and> disk s' = disk s \<and> mounted s' = mounted s"
proof (cases "read_block (disk s) 0")
  case None
  then show ?thesis by (simp add: load_superblock_def)
next
  case (Some buf)
  then show ?thesis using read_block0_magic [OF Some] assms
    by (simp add: load_superblock_def decode_superblock_def Let_def)
qed

text \<open>
  Claim C6. \<^verbatim>\<open>mount\<close> of an image whose first four bytes are not the magic number
  \<^verbatim>\<open>0x4D494E44\<close> returns false, as does a \<^verbatim>\<open>mount\<close> whose image cannot be opened: so
  \<^verbatim>\<open>mount\<close> returns true only on an image with the magic number. Started on a file system
  that is not mounted and whose device is closed, the failed \<^verbatim>\<open>mount\<close> leaves it not mounted
  and the device closed again; when the image holds at least one block and fewer than
  2147483648 blocks, so that \<open>total_blocks\<close> is its block count, the error logged is
  \<^verbatim>\<open>ERROR_INVALID_ARGUMENT\<close>.
\<close>

theorem mount_bad_magic:
  "(file = Some f \<and> image_magic f \<noteq> MAGIC_NUMBER \<longrightarrow> fst (mount s now file) \<noteq> Inr ()) \<and>
   (file = None \<longrightarrow> fst (mount s now file) \<noteq> Inr ()) \<and>
   (\<not> mounted s \<and> \<not> disk_open (disk s) \<and> file = Some f \<and> image_magic f \<noteq> MAGIC_NUMBER \<longrightarrow>
      \<not> mounted (snd (mount s now file)) \<and> \<not> disk_open (disk (snd (mount s now file))) \<and>
      \<not> is_mounted (snd (mount s now file))) \<and>
   (\<not> mounted s \<and> \<not> disk_open (disk s) \<and> file = Some f \<and> image_magic f \<noteq> MAGIC_NUMBER \<and>
    int BLOCK_SIZE \<le> file_size f \<and> file_size f < 8796093022208 \<longrightarrow>
      fst (mount s now file) = Inl ERROR_INVALID_ARGUMENT)"
proof -
  have a: "fst (mount s now file) \<noteq> Inr () \<and>
      (\<not> mounted s \<and> \<not> disk_open (disk s) \<longrightarrow>
         \<not> mounted (snd (mount s now file)) \<and> \<not> disk_open (disk (snd (mount s now file))))"
    if h: "file = Some f" "image_magic f \<noteq> MAGIC_NUMBER"
  proof (cases "mounted s \<or> disk_open (disk s)")
    case True
    then show ?thesis using h by (auto simp: mount_def open_disk_def)
  next
    case False
    let ?d1 = "(disk s)\<lparr>lock_acquired := True, disk_size := file_size f,
                    total_blocks := int32 (file_size f sdiv int BLOCK_SIZE),
                    disk_bytes := file_bytes f, disk_open := True\<rparr>"
    have o: "open_disk (disk s) file = (True, ?d1)" using False h by (simp add: open_disk_def)
    have "rd32 (map (disk_bytes (disk (s\<lparr>disk := ?d1\<rparr>))) [0..<4]) 0 \<noteq> MAGIC_NUMBER"
      using h(2) by (simp add: image_magic_def del: upt_rec_numeral)
    from load_superblock_magic [OF this] obtain e s' where
      l: "load_superblock (s\<lparr>disk := ?d1\<rparr>) = (Inl e, s')" "disk s' = ?d1" "mounted s' = mounted s"
      by auto
    have "mount s now file = (Inl e, s'\<lparr>disk := close_disk (disk s')\<rparr>)"
      using False o l(1) by (simp add: mount_def initialize_after_open_def)
    then show ?thesis using l(2,3) False by (simp add: close_disk_def)
  qed
  have b: "fst (mount s now file) \<noteq> Inr ()" if "file = None"
    using that by (simp add: mount_def open_disk_def)
  have c: "fst (mount s now file) = Inl ERROR_INVALID_ARGUMENT"
    if h: "\<not> mounted s" "\<not> disk_open (disk s)" "file = Some f" "image_magic f \<noteq> MAGIC_NUMBER"
      "int BLOCK_SIZE \<le> file_size f" "file_size f < 8796093022208"
  proof -
    let ?d1 = "(disk s)\<lparr>lock_acquired := True, disk_size := file_size f,
                    total_blocks := int32 (file_size f sdiv int BLOCK_SIZE),
                    disk_bytes := file_bytes f, disk_open := True\<rparr>"
    have o: "open_disk (disk s) file = (True, ?d1)" using h by (simp add: open_disk_def)
    have "0 < file_size f div 4096" "file_size f div 4096 < 2147483648"
      using h(5,6) by arith+
    moreover have "file_size f sdiv 4096 = file_size f div 4096"
      using h(5) by (simp add: sdiv_nonneg)
    ultimately have "0 < int32 (file_size f sdiv 4096)" by (simp add: int32_id)
    then have "is_ready_for_io ?d1 0" by (simp add: is_ready_for_io_def)
    then obtain buf where buf: "read_block ?d1 0 = Some buf" using read_block_Some by blast
    have "rd32 buf 0 \<noteq> MAGIC_NUMBER"
      using read_block0_magic [OF buf] h(4) by (simp add: image_magic_def del: upt_rec_numeral)
    then have "load_superblock (s\<lparr>disk := ?d1\<rparr>) =
        (Inl ERROR_INVALID_ARGUMENT, s\<lparr>disk := ?d1, superblock := decode_superblock buf\<rparr>)"
      using buf by (simp add: load_superblock_def decode_superblock_def Let_def)
    then show ?thesis using h(1) o by (simp add: mount_def initialize_after_open_def)
  qed
  show ?thesis using a b c by (simp add: is_mounted_def)
qed

theorem mount_bad_magic_witness:
  "fst (mount new_FileSystem 9 (Some zero_image)) = Inl ERROR_INVALID_ARGUMENT \<and>
   is_mounted (snd (mount new_FileSystem 9 (Some zero_image))) = False \<and>
   disk_open (disk (snd (mount new_FileSystem 9 (Some zero_image)))) = False \<and>
   fst (mount new_FileSystem 9 None) = Inl ERROR_IO_ERROR"
proof -
  have m: "image_magic zero_image \<noteq> MAGIC_NUMBER"
    by (simp add: image_magic_def zero_image_def rd32_def)
  have n: "\<not> mounted new_FileSystem" "\<not> disk_open (disk new_FileSystem)"
    by (simp_all add: new_FileSystem_def new_DiskSimulator_def)
  have sz: "int BLOCK_SIZE \<le> file_size zero_image" "file_size zero_image < 8796093022208"
    by (simp_all add: zero_image_def)
  note t = mount_bad_magic [of "Some zero_image" zero_image new_FileSystem 9]
  have a: "fst (mount new_FileSystem 9 (Some zero_image)) = Inl ERROR_INVALID_ARGUMENT"
    using t m n sz by simp
  have b: "\<not> is_mounted (snd (mount new_FileSystem 9 (Some zero_image)))"
    "\<not> disk_open (disk (snd (mount new_FileSystem 9 (Some zero_image))))"
    using t m n by simp_all
  have c: "fst (mount new_FileSystem 9 None) = Inl ERROR_IO_ERROR"
    using mount_bad_magic [of None zero_image new_FileSystem 9]
    by (simp add: mount_def open_disk_def new_FileSystem_def new_DiskSimulator_def)
  show ?thesis using a b c by simp
qed

subsection \<open>Releasing the blocks of a file\<close>

text \<open>
  Claim C3, at an allocated inode with a double-indirect block: \<^verbatim>\<open>get_data_blocks\<close> lists block 12, in
  use; \<^verbatim>\<open>free_data_blocks\<close> returns true; afterwards block 12 and the inner indirect block
  11 are still marked in use in the data bitmap, and only the double-indirect block 10
  was released. The blocks of the double-indirect tier are not freed.
\<close>

theorem free_data_blocks_leaks_double_indirect:
  "is_inode_allocated leak_fs 5 \<and>
   get_data_blocks leak_fs 5 = Some [12] \<and>
   is_allocated (data_bitmap (inode_manager leak_fs)) (12 - data_blocks_start (im_layout (inode_manager leak_fs))) \<and>
   fst (free_data_blocks leak_fs 5) = True \<and>
   is_allocated (data_bitmap (inode_manager (snd (free_data_blocks leak_fs 5))))
     (12 - data_blocks_start (im_layout (inode_manager leak_fs))) \<and>
   is_allocated (data_bitmap (inode_manager (snd (free_data_blocks leak_fs 5))))
     (11 - data_blocks_start (im_layout (inode_manager leak_fs))) \<and>
   \<not> is_allocated (data_bitmap (inode_manager (snd (free_data_blocks leak_fs 5))))
     (10 - data_blocks_start (im_layout (inode_manager leak_fs))) \<and>
   get_free_data_blocks (snd (free_data_blocks leak_fs 5)) = 58"
proof -
  obtain d where d: "leak_fs = blank_fs\<lparr>inode_manager := (inode_manager blank_fs)\<lparr>inode_bitmap := leak_inodes, data_bitmap := leak_bitmap\<rparr>,
        disk := d\<rparr>"
     "disk_open d" "total_blocks d = 64"
     "read_indirect_block d 10 = Some [11]" "read_indirect_block d 11 = Some [12]"
    using leak_fs_facts(1) by blast
  have i: "inode_check_initialized leak_fs" by (simp add: d(1) inode_check_initialized_def)
  have ia: "is_inode_allocated leak_fs 5"
    by (simp add: d(1) is_inode_allocated_def is_allocated_def is_valid_bit_def leak_inodes_def
        new_BitmapManager_def bit_is_set_def)
  have dl: "disk leak_fs = d" by (simp add: d(1))
  have g: "get_data_blocks leak_fs 5 = Some [12]"
    using i leak_fs_facts(2) d(4,5)
    by (simp add: get_data_blocks_def dl leak_inode_def initialize_new_inode_def)
  have a0: "is_allocated (data_bitmap (inode_manager leak_fs)) (12 - data_blocks_start (im_layout (inode_manager leak_fs)))"
    by (simp add: d(1) example_layout_def is_allocated_def is_valid_bit_def leak_bitmap_def
        new_BitmapManager_def bit_is_set_def)
  let ?I = "leak_inode\<lparr>direct_blocks := map (\<lambda>x. 0) (direct_blocks leak_inode),
                          double_indirect_block := -1\<rparr>"
  let ?bm = "leak_bitmap\<lparr>bitmap_data := [0x80, 0x01, 0, 0, 0, 0, 0, 0], free_bits_count := 58\<rparr>"
  let ?s3 = "blank_fs\<lparr>inode_manager := (inode_manager blank_fs)\<lparr>inode_bitmap := leak_inodes, data_bitmap := ?bm\<rparr>, disk := d\<rparr>"
  have fa: "free_all_data_blocks_for_inode leak_fs leak_inode = (?I, ?s3)"
    by (simp add: free_all_data_blocks_for_inode_def leak_inode_def initialize_new_inode_def
        free_indirect_block_def free_data_bit_def set_data_bitmap_def d(1) example_layout_def
        free_bit_def bitmap_check_initialized_def is_valid_bit_def leak_bitmap_def
        new_BitmapManager_def bit_is_set_def clear_bit_def Let_def)
  have "\<exists>d'. write_inode ?s3 5 (?I\<lparr>size_i := 0\<rparr>) = Some (?s3\<lparr>disk := d'\<rparr>) \<and>
              disk_open d' = disk_open (disk ?s3) \<and> total_blocks d' = total_blocks (disk ?s3)"
    using d(2,3)
    by (intro write_inode_ok)
       (simp_all add: inode_check_initialized_def get_total_inodes_def get_total_bits_def
          new_BitmapManager_def leak_inodes_def example_layout_def is_ready_for_io_def)
  then obtain d4 where d4: "write_inode ?s3 5 (?I\<lparr>size_i := 0\<rparr>) = Some (?s3\<lparr>disk := d4\<rparr>)"
    "disk_open d4" "total_blocks d4 = 64" using d(2,3) by auto
  have sv: "fst (save_data_bitmap (?s3\<lparr>disk := d4\<rparr>)) = True \<and>
      inode_manager (snd (save_data_bitmap (?s3\<lparr>disk := d4\<rparr>))) =
        (inode_manager blank_fs)\<lparr>inode_bitmap := leak_inodes, data_bitmap := ?bm\<lparr>start_block := 3, block_count := 1\<rparr>\<rparr>"
    using d4(2,3)
    by (simp add: save_data_bitmap_def save_to_disk_def bitmap_check_initialized_def
        leak_bitmap_def new_BitmapManager_def example_layout_def save_loop.simps Let_def
        set_data_bitmap_def write_block_def is_ready_for_io_def)
  have fd: "free_data_blocks leak_fs 5 = save_data_bitmap (?s3\<lparr>disk := d4\<rparr>)"
    using i leak_fs_facts(2) fa d4(1) by (simp add: free_data_blocks_def)
  show ?thesis
    using ia g a0 sv unfolding fd
    by (simp add: d(1) example_layout_def is_allocated_def is_valid_bit_def leak_bitmap_def
        new_BitmapManager_def bit_is_set_def get_free_data_blocks_def get_free_bits_def)
qed

subsection \<open>First fit\<close>








subsection \<open>Writing and reading back\<close>

text \<open>A write of no bytes through a descriptor at position 0 on an inode of size 0 without
  blocks: no block is allocated, the block list is empty, and \<^verbatim>\<open>write_data_to_blocks\<close>
  refuses it.\<close>

lemma write_file_nothing_on_no_blocks:
  assumes "mounted s" "get_file_descriptor s fd = Some desc"
    "fd_mode desc AND OPEN_MODE_WRITE \<noteq> 0" "position desc = 0"
    "read_inode s (inode_num desc) = Some inode" "size_i inode = 0"
    "get_data_blocks s (inode_num desc) = Some []"
  shows "write_file s now fd buffer 0 = (Inl ERROR_IO_ERROR, s)"
proof -
  have c: "int32 (int32 (0 + 4096) - 1) sdiv 4096 = 0"
    by (simp add: int32_id sdiv_nonneg)
  have r: "int32 (int32 (int32 (0 + 0) + 4096) - 1) sdiv 4096 = 0"
    by (simp add: int32_id sdiv_nonneg)
  show ?thesis
    using assms c r
    by (simp add: write_file_def fm_write_file_def Let_def write_data_to_blocks_def int32_id)
qed

text \<open>
  Claim C1, at an empty buffer. On a new file, with the descriptor \<^verbatim>\<open>open_file\<close> returns,
  \<^verbatim>\<open>write_file\<close> of zero bytes returns \<^verbatim>\<open>-1\<close> with \<^verbatim>\<open>ERROR_IO_ERROR\<close> and changes
  nothing, so the sequence of the claim stops there; \<^verbatim>\<open>read_file\<close> of zero bytes on the same
  descriptor returns 0, and \<^verbatim>\<open>write_file\<close> of zero bytes on a file that has a block returns
  0.
\<close>

theorem write_file_empty_buffer_fails:
  "mounted new_file_fs \<and> is_inode_allocated new_file_fs 1 \<and>
   get_file_descriptor new_file_fs 3 = Some new_file_fd \<and>
   read_inode new_file_fs 1 = Some new_file_inode \<and>
   get_data_blocks new_file_fs 1 = Some [] \<and>
   write_file new_file_fs 9 3 [] 0 = (Inl ERROR_IO_ERROR, new_file_fs) \<and>
   read_file new_file_fs 9 3 0 = (Inr (0, []), new_file_fs) \<and>
   fst (write_file open_fs 9 3 [] 0) = Inr 0"
proof -
  let ?b = "blank_fs\<lparr>inode_manager := (inode_manager blank_fs)\<lparr>inode_bitmap := two_inodes\<rparr>\<rparr>"
  have "\<exists>d'. write_inode ?b 1 new_file_inode = Some (?b\<lparr>disk := d'\<rparr>) \<and>
              disk_open d' = disk_open (disk ?b) \<and> total_blocks d' = total_blocks (disk ?b)"
    by (intro write_inode_ok)
       (simp_all add: inode_check_initialized_def get_total_inodes_def get_total_bits_def
          new_BitmapManager_def two_inodes_def example_layout_def is_ready_for_io_def)
  then obtain d' where d: "write_inode ?b 1 new_file_inode = Some (?b\<lparr>disk := d'\<rparr>)" by auto
  have o: "new_file_fs = ?b\<lparr>disk := d', file_descriptors := [3 \<mapsto> new_file_fd], next_fd := 4\<rparr>"
    using d by (simp add: new_file_fs_def)
  have l: "length (direct_blocks new_file_inode) = DIRECT_BLOCKS_COUNT"
    by (simp add: new_file_inode_def fou_initialize_new_inode_def)
  have m: "mounted new_file_fs" by (simp add: o blank_fs_def)
  have ia: "is_inode_allocated new_file_fs 1"
    by (simp add: o is_inode_allocated_def is_allocated_def is_valid_bit_def two_inodes_def
        new_BitmapManager_def bit_is_set_def)
  have g: "get_file_descriptor new_file_fs 3 = Some new_file_fd"
    by (simp add: o get_file_descriptor_def new_file_fd_def)
  have r: "read_inode new_file_fs 1 = Some new_file_inode"
    using read_after_write_inode [OF d l] by (simp add: o)
  have i: "inode_check_initialized new_file_fs" by (simp add: o inode_check_initialized_def)
  have b: "get_data_blocks new_file_fs 1 = Some []"
    using i r by (simp add: get_data_blocks_def new_file_inode_def fou_initialize_new_inode_def)
  have w: "write_file new_file_fs 9 3 [] 0 = (Inl ERROR_IO_ERROR, new_file_fs)"
    using m g r b
    by (intro write_file_nothing_on_no_blocks [where desc = new_file_fd and inode = new_file_inode])
       (simp_all add: new_file_fd_def new_file_inode_def fou_initialize_new_inode_def)
  have rd: "read_file new_file_fs 9 3 0 = (Inr (0, []), new_file_fs)"
    using m g r
    by (simp add: read_file_def fm_read_file_def new_file_fd_def new_file_inode_def
        fou_initialize_new_inode_def)
  have g3: "get_file_descriptor open_fs 3 = Some example_fd"
    by (simp add: get_file_descriptor_def open_fs_simps example_fd_def)
  obtain e' where e: "write_inode blank_fs 5 example_inode = Some (blank_fs\<lparr>disk := e'\<rparr>)"
      "disk_open e'" "total_blocks e' = 64"
    using blank_write_inode [of 5 example_inode] by auto
  have oe: "open_fs = blank_fs\<lparr>disk := e', file_descriptors := [3 \<mapsto> example_fd], next_fd := 4\<rparr>"
    using e by (simp add: open_fs_def)
  have "\<exists>d2. write_inode open_fs 5 (example_inode\<lparr>size_i := 10, modification_time := 9\<rparr>)
            = Some (open_fs\<lparr>disk := d2\<rparr>) \<and>
          disk_open d2 = disk_open (disk open_fs) \<and> total_blocks d2 = total_blocks (disk open_fs)"
    using e(2,3)
    by (intro write_inode_ok)
       (simp_all add: oe inode_check_initialized_def get_total_inodes_def get_total_bits_def
          new_BitmapManager_def example_layout_def is_ready_for_io_def)
  then obtain d2 where d2: "write_inode open_fs 5 (example_inode\<lparr>size_i := 10, modification_time := 9\<rparr>)
            = Some (open_fs\<lparr>disk := d2\<rparr>)" by auto
  have c1: "int32 (int32 (10 + 4096) - 1) sdiv 4096 = 1" by (simp add: int32_id sdiv_nonneg)
  have c2: "int32 (int32 (int32 (4 + 0) + 4096) - 1) sdiv 4096 = 1" by (simp add: int32_id sdiv_nonneg)
  have od: "open_fs\<lparr>disk := disk open_fs\<rparr> = open_fs" by simp
  have w0: "fst (write_file open_fs 9 3 [] 0) = Inr 0"
    using g3 open_fs_simps open_fs_blocks d2 c1 c2 od
    by (simp add: write_file_def fm_write_file_def Let_def write_data_to_blocks_def int32_id
        sdiv_nonneg smod_nonneg example_fd_def example_inode_def)
  show ?thesis using m ia g r b w rd w0 by simp
qed

subsection \<open>Path normalisation\<close>

lemma unique_slash_hd: "unique_slash (a # cs) \<noteq> [] \<and> hd (unique_slash (a # cs)) = a"
  by (induction "a # cs" arbitrary: cs rule: unique_slash.induct) auto

lemma unique_slash_no_double: "no_double_slash (unique_slash xs)"
proof (induction xs rule: unique_slash.induct)
  case (3 a b cs)
  show ?case
  proof (cases "a = CHR ''/'' \<and> b = CHR ''/''")
    case True
    with 3 show ?thesis by simp
  next
    case False
    obtain y ys where u: "unique_slash (b # cs) = y # ys"
      using unique_slash_hd [of b cs] by (cases "unique_slash (b # cs)") auto
    then have "y = b" using unique_slash_hd [of b cs] by simp
    with False 3 u show ?thesis by auto
  qed
qed simp_all

lemma unique_slash_fixed: "no_double_slash xs \<Longrightarrow> unique_slash xs = xs"
  by (induction xs rule: unique_slash.induct) auto

lemma unique_slash_set: "set (unique_slash xs) \<subseteq> set xs"
  by (induction xs rule: unique_slash.induct) auto

lemma replace_backslash_none: "CHR 0x5C \<notin> set (replace_backslash xs)"
  by (auto simp: replace_backslash_def)

lemma replace_backslash_fixed: "CHR 0x5C \<notin> set xs \<Longrightarrow> replace_backslash xs = xs"
  by (induction xs) (auto simp: replace_backslash_def)

lemma no_double_slash_butlast: "no_double_slash xs \<Longrightarrow> no_double_slash (butlast xs)"
proof (induction xs rule: no_double_slash.induct)
  case (1 a b cs)
  then show ?case by (cases cs) auto
qed simp_all

lemma no_double_slash_last:
  "no_double_slash xs \<Longrightarrow> length xs > 1 \<Longrightarrow> last xs = CHR ''/'' \<Longrightarrow> last (butlast xs) \<noteq> CHR ''/''"
  by (induction xs rule: no_double_slash.induct) (auto split: if_splits)

lemma no_double_slash_nth:
  "no_double_slash xs \<Longrightarrow> Suc i < length xs \<Longrightarrow> \<not> (xs ! i = CHR ''/'' \<and> xs ! Suc i = CHR ''/'')"
proof (induction xs arbitrary: i rule: no_double_slash.induct)
  case (1 a b cs)
  then show ?case by (cases i) auto
qed simp_all

lemma normalize_path_shape:
  "no_double_slash (normalize_path p) \<and> CHR 0x5C \<notin> set (normalize_path p) \<and>
   \<not> (length (normalize_path p) > 1 \<and> last (normalize_path p) = CHR ''/'')"
proof (cases "p = []")
  case True
  then show ?thesis by (simp add: normalize_path_def)
next
  case False
  define n where "n = unique_slash (replace_backslash p)"
  have nd: "no_double_slash n" by (simp add: n_def unique_slash_no_double)
  have nb: "CHR 0x5C \<notin> set n"
    using unique_slash_set [of "replace_backslash p"] replace_backslash_none [of p]
    by (auto simp: n_def)
  show ?thesis
  proof (cases "length n > 1 \<and> last n = CHR ''/''")
    case True
    then have eq: "normalize_path p = butlast n"
      using False by (simp add: normalize_path_def n_def Let_def)
    have "CHR 0x5C \<notin> set (butlast n)" using nb by (meson in_set_butlastD)
    moreover have "last (butlast n) \<noteq> CHR ''/''"
      using no_double_slash_last [OF nd] True by simp
    ultimately show ?thesis
      using eq no_double_slash_butlast [OF nd] by simp
  next
    case F: False
    then have eq: "normalize_path p = n"
      using False by (auto simp add: normalize_path_def n_def Let_def)
    show ?thesis using eq nd nb F by auto
  qed
qed

lemma normalize_path_fixed:
  assumes "no_double_slash q" "CHR 0x5C \<notin> set q"
    "\<not> (length q > 1 \<and> last q = CHR ''/'')"
  shows "normalize_path q = q"
  using assms
  by (auto simp: normalize_path_def Let_def replace_backslash_fixed unique_slash_fixed)

text \<open>
  Claim C10. \<^verbatim>\<open>normalize_path\<close> is idempotent; its result holds no backslash and no two
  consecutive slashes, and it ends with a slash only when it is the root path \<^verbatim>\<open>/\<close>.
\<close>

theorem normalize_path_idempotent_clean:
  "normalize_path (normalize_path p) = normalize_path p \<and>
   CHR 0x5C \<notin> set (normalize_path p) \<and>
   (\<forall>i. Suc i < length (normalize_path p) \<longrightarrow>
        \<not> (normalize_path p ! i = CHR ''/'' \<and> normalize_path p ! Suc i = CHR ''/'')) \<and>
   (normalize_path p \<noteq> [] \<and> last (normalize_path p) = CHR ''/'' \<longrightarrow> normalize_path p = ''/'')"
proof -
  let ?q = "normalize_path p"
  have sh: "no_double_slash ?q" "CHR 0x5C \<notin> set ?q"
    "\<not> (length ?q > 1 \<and> last ?q = CHR ''/'')"
    using normalize_path_shape [of p] by auto
  have a: "normalize_path ?q = ?q" by (rule normalize_path_fixed [OF sh])
  have c: "\<forall>i. Suc i < length ?q \<longrightarrow> \<not> (?q ! i = CHR ''/'' \<and> ?q ! Suc i = CHR ''/'')"
    using no_double_slash_nth [OF sh(1)] by blast
  have d: "?q \<noteq> [] \<and> last ?q = CHR ''/'' \<longrightarrow> ?q = ''/''"
  proof
    assume h: "?q \<noteq> [] \<and> last ?q = CHR ''/''"
    then have "length ?q = 1" using sh(3) by (cases ?q) auto
    with h show "?q = ''/''" by (cases ?q) auto
  qed
  show ?thesis using a sh(2) c d by blast
qed

theorem normalize_path_idempotent_clean_witness:
  "normalize_path [CHR ''a'', CHR 0x5C, CHR ''/'', CHR ''b'', CHR 0x5C] = ''a/b'' \<and>
   normalize_path ''a/b'' = ''a/b'' \<and> normalize_path ''//'' = ''/'' \<and>
   CHR 0x5C \<notin> set ''a/b''"
proof -
  have e: "normalize_path [CHR ''a'', CHR 0x5C, CHR ''/'', CHR ''b'', CHR 0x5C] = ''a/b''"
    by (simp add: normalize_path_def replace_backslash_def)
  have r: "normalize_path ''//'' = ''/''"
    by (simp add: normalize_path_def replace_backslash_def)
  show ?thesis
    using normalize_path_idempotent_clean [of "[CHR ''a'', CHR 0x5C, CHR ''/'', CHR ''b'', CHR 0x5C]"]
      normalize_path_idempotent_clean [of "''//''"]
    unfolding e r by simp
qed

end
